theory Spec2Isabelle
  imports Main "HOL-Library.AList"
begin

section \<open>Python values, dictionaries and exceptions\<close>

text \<open>
  The component works on dynamically typed data: the inputs of the spec, the request
  (a nested dictionary loaded from a template) and the responses of the service client.
  A value is \<open>None\<close>, a boolean, an integer, a string, a list or a dictionary with
  string keys. A dictionary keeps its items in insertion order, as Python does. A string
  is a list of code points below 256 (the type \<open>char\<close> read as Latin-1); \<open>lower\<close> and
  \<open>strip\<close> below are Python's on these code points.
\<close>

datatype pyval =
    PNone
  | PBool bool
  | PInt int
  | PStr string
  | PList "pyval list"
  | PDict "(string \<times> pyval) list"

text \<open>
  Every \<open>raise\<close> of the source and every failure of a built-in operation is a value.
  \<open>Exception\<close> carries the message of \<open>raise Exception(...)\<close>; \<open>NameError\<close> is the
  lookup of a global name that is not bound.
\<close>

datatype py_error =
    NameError string
  | KeyError string
  | TypeError
  | AttributeError
  | Exception string
  | ClientError string

definition bind_err :: "py_error + 'a \<Rightarrow> ('a \<Rightarrow> py_error + 'b) \<Rightarrow> py_error + 'b" where
  "bind_err m f = (case m of Inl e \<Rightarrow> Inl e | Inr x \<Rightarrow> f x)"

text \<open>Truth value testing, as \<open>if x:\<close> does it.\<close>

fun truthy :: "pyval \<Rightarrow> bool" where
  "truthy PNone = False"
| "truthy (PBool b) = b"
| "truthy (PInt i) = (i \<noteq> 0)"
| "truthy (PStr s) = (s \<noteq> [])"
| "truthy (PList xs) = (xs \<noteq> [])"
| "truthy (PDict d) = (d \<noteq> [])"

text \<open>\<open>len(x)\<close>: defined on strings, lists and dictionaries, a \<open>TypeError\<close> otherwise.\<close>

fun py_len :: "pyval \<Rightarrow> py_error + nat" where
  "py_len (PStr s) = Inr (length s)"
| "py_len (PList xs) = Inr (length xs)"
| "py_len (PDict d) = Inr (length d)"
| "py_len _ = Inl TypeError"

text \<open>\<open>x[k]\<close>, \<open>x[k] = v\<close> and \<open>x.pop(k)\<close> with a string key.\<close>

fun getitem :: "pyval \<Rightarrow> string \<Rightarrow> py_error + pyval" where
  "getitem (PDict d) k = (case map_of d k of None \<Rightarrow> Inl (KeyError k) | Some v \<Rightarrow> Inr v)"
| "getitem _ k = Inl TypeError"

fun setitem :: "pyval \<Rightarrow> string \<Rightarrow> pyval \<Rightarrow> py_error + pyval" where
  "setitem (PDict d) k v = Inr (PDict (AList.update k v d))"
| "setitem _ k v = Inl TypeError"

fun pop :: "pyval \<Rightarrow> string \<Rightarrow> py_error + pyval" where
  "pop (PDict d) k =
     (case map_of d k of None \<Rightarrow> Inl (KeyError k) | Some v \<Rightarrow> Inr (PDict (AList.delete k d)))"
| "pop (PList xs) k = Inl TypeError"
| "pop _ k = Inl AttributeError"

text \<open>\<open>x.append(v)\<close>: only a list has the method.\<close>

fun py_append :: "pyval \<Rightarrow> pyval \<Rightarrow> py_error + pyval" where
  "py_append (PList xs) v = Inr (PList (xs @ [v]))"
| "py_append _ v = Inl AttributeError"

text \<open>\<open>x.items()\<close>: only a dictionary has the method.\<close>

fun items :: "pyval \<Rightarrow> py_error + (string \<times> pyval) list" where
  "items (PDict d) = Inr d"
| "items _ = Inl AttributeError"

text \<open>
  The request is mutated in place through two levels: \<open>request[a][b] = v\<close>,
  \<open>request[a].pop(b)\<close> and \<open>request[a][b].append(v)\<close>. The model returns the new request.
\<close>

definition setitem2 :: "pyval \<Rightarrow> string \<Rightarrow> string \<Rightarrow> pyval \<Rightarrow> py_error + pyval" where
  "setitem2 r a b v =
     bind_err (getitem r a) (\<lambda>x. bind_err (setitem x b v) (\<lambda>x'. setitem r a x'))"

definition pop2 :: "pyval \<Rightarrow> string \<Rightarrow> string \<Rightarrow> py_error + pyval" where
  "pop2 r a b = bind_err (getitem r a) (\<lambda>x. bind_err (pop x b) (\<lambda>x'. setitem r a x'))"

definition append1 :: "pyval \<Rightarrow> string \<Rightarrow> pyval \<Rightarrow> py_error + pyval" where
  "append1 r a v = bind_err (getitem r a) (\<lambda>x. bind_err (py_append x v) (\<lambda>x'. setitem r a x'))"

definition append2 :: "pyval \<Rightarrow> string \<Rightarrow> string \<Rightarrow> pyval \<Rightarrow> py_error + pyval" where
  "append2 r a b v =
     bind_err (getitem r a) (\<lambda>x. bind_err (append1 x b v) (\<lambda>x'. setitem r a x'))"

text \<open>Reading a request without raising: the entry under a key, and under a key of a key.\<close>

fun lookup1 :: "pyval \<Rightarrow> string \<Rightarrow> pyval option" where
  "lookup1 (PDict d) k = map_of d k"
| "lookup1 _ k = None"

definition lookup2 :: "pyval \<Rightarrow> string \<Rightarrow> string \<Rightarrow> pyval option" where
  "lookup2 r a b = (case lookup1 r a of None \<Rightarrow> None | Some x \<Rightarrow> lookup1 x b)"

subsection \<open>String methods\<close>

text \<open>
  \<open>str.lower\<close> on one code point: the upper-case letters are \<open>A\<close> to \<open>Z\<close> and the
  code points 0xC0 to 0xDE but 0xD7 (the multiplication sign), each 32 below its
  lower-case letter.
\<close>

definition lower_char :: "char \<Rightarrow> char" where
  "lower_char c =
     (let n = (of_char c :: nat) in
      if (65 \<le> n \<and> n \<le> 90) \<or> (192 \<le> n \<and> n \<le> 222 \<and> n \<noteq> 215)
      then char_of (n + 32) else c)"

text \<open>
  The code points that \<open>str.strip\<close> removes: 0x09 to 0x0D, 0x1C to 0x20, 0x85 (next
  line) and 0xA0 (no-break space).
\<close>

definition is_space :: "char \<Rightarrow> bool" where
  "is_space c \<longleftrightarrow>
     (let n = (of_char c :: nat) in
      (9 \<le> n \<and> n \<le> 13) \<or> (28 \<le> n \<and> n \<le> 32) \<or> n = 133 \<or> n = 160)"

definition str_lower :: "string \<Rightarrow> string" where
  "str_lower s = map lower_char s"

definition str_strip :: "string \<Rightarrow> string" where
  "str_strip s = rev (dropWhile is_space (rev (dropWhile is_space s)))"

fun str_split :: "char \<Rightarrow> string \<Rightarrow> string list" where
  "str_split c [] = [[]]"
| "str_split c (x # xs) =
     (if x = c then [] # str_split c xs
      else (case str_split c xs of [] \<Rightarrow> [[x]] | w # ws \<Rightarrow> (x # w) # ws))"

text \<open>
  The methods as Python dispatches them: a value that is not a string has none of them.
  \<open>lower_strip x\<close> is \<open>x.lower().strip()\<close>.
\<close>

fun lower_strip :: "pyval \<Rightarrow> py_error + string" where
  "lower_strip (PStr s) = Inr (str_strip (str_lower s))"
| "lower_strip _ = Inl AttributeError"

fun py_split :: "pyval \<Rightarrow> char \<Rightarrow> py_error + pyval" where
  "py_split (PStr s) c = Inr (PList (map PStr (str_split c s)))"
| "py_split _ c = Inl AttributeError"

subsection \<open>The inputs of the spec\<close>

text \<open>
  \<open>spec.inputs\<close> is a mapping from input names to values; \<open>spec.inputs.get(k)\<close> is
  \<open>None\<close> for a missing key, and \<open>spec.inputs.get(k, d)\<close> is \<open>d\<close>.
\<close>

type_synonym inputs = "(string \<times> pyval) list"

definition inputs_get :: "inputs \<Rightarrow> string \<Rightarrow> pyval" where
  "inputs_get i k = (case map_of i k of None \<Rightarrow> PNone | Some v \<Rightarrow> v)"

definition inputs_get_default :: "inputs \<Rightarrow> string \<Rightarrow> pyval \<Rightarrow> pyval" where
  "inputs_get_default i k d = (case map_of i k of None \<Rightarrow> d | Some v \<Rightarrow> v)"

section \<open>The collaborators of the training component\<close>

text \<open>
  \<open>sagemaker_training_component.py\<close> calls methods of its base class and reads global
  names that it neither defines nor imports.
  \<^item> \<open>get_request_template\<close>, \<open>create_hyperparameters\<close> and
    \<open>enable_spot_instance_support\<close> are the methods \<open>self._get_request_template\<close>,
    \<open>self._create_hyperparameters\<close> and \<open>self._enable_spot_instance_support\<close> that the
    component inherits (the last one mutates the request it is given; here it returns
    it). The base class is not in the source, so they are parameters of the model.
  \<^item> \<open>built_in_algos\<close>, \<open>get_image_uri\<close>, \<open>logging\<close> and \<open>job_name\<close> are global names.
    The imports of the file bind \<open>Dict\<close>, \<open>Type\<close>, \<open>SageMakerTrainingSpec\<close>,
    \<open>SageMakerComponent\<close>, \<open>ComponentMetadata\<close> and \<open>SageMakerJobStatus\<close>, and nothing
    else: each of the four names is \<open>None\<close> (unbound) unless other code has stored a
    value under it in the module. Reading an unbound name raises \<open>NameError\<close>.
\<close>

record environment =
  get_request_template :: "string \<Rightarrow> py_error + pyval"
  create_hyperparameters :: "pyval \<Rightarrow> py_error + pyval"
  enable_spot_instance_support :: "pyval \<Rightarrow> inputs \<Rightarrow> py_error + pyval"
  built_in_algos :: "(string \<times> string) list option"
  get_image_uri :: "(pyval \<Rightarrow> string \<Rightarrow> py_error + pyval) option"
  logging :: "unit option"
  job_name :: "pyval option"

definition global_name :: "string \<Rightarrow> 'a option \<Rightarrow> py_error + 'a" where
  "global_name n binding = (case binding of None \<Rightarrow> Inl (NameError n) | Some v \<Rightarrow> Inr v)"

text \<open>The component object: its only attribute set in this file is \<open>_training_job_name\<close>.\<close>

record component =
  training_job_name :: pyval

subsection \<open>Logging\<close>

text \<open>
  With \<open>logging\<close> bound, \<open>logging.error\<close> and \<open>logging.warning\<close> append a record to
  the log; with \<open>logging\<close> unbound, the call raises \<open>NameError\<close> and nothing is logged.
  A computation that logs returns the records it has emitted along with its result or
  its exception; the records emitted before a \<open>raise\<close> are kept.
\<close>

datatype log_level = ERROR | WARNING | INFO

type_synonym log_entry = "log_level \<times> string"

type_synonym 'a logged = "log_entry list \<times> (py_error + 'a)"

definition quiet :: "py_error + 'a \<Rightarrow> 'a logged" where
  "quiet m = ([], m)"

definition then_do :: "'a logged \<Rightarrow> ('a \<Rightarrow> 'b logged) \<Rightarrow> 'b logged" where
  "then_do m f =
     (case m of
        (l, Inl e) \<Rightarrow> (l, Inl e)
      | (l, Inr x) \<Rightarrow> (case f x of (l', y) \<Rightarrow> (l @ l', y)))"

definition log_record :: "environment \<Rightarrow> log_level \<Rightarrow> string \<Rightarrow> unit logged" where
  "log_record env level message =
     (case logging env of
        None \<Rightarrow> ([], Inl (NameError ''logging''))
      | Some _ \<Rightarrow> ([(level, message)], Inr ()))"

subsection \<open>The service client and the outputs\<close>

text \<open>
  The run changes two things outside the request: the remote service, reached through
  \<open>self._sm_client\<close> and \<open>self._print_cloudwatch_logs\<close>, and \<open>spec.outputs\<close>. The
  \<open>history\<close> is the sequence of calls made so far; the response to a call may depend on
  all the calls before it, so the client is a function of the history and the call.
\<close>

datatype event =
    CreateTrainingJob pyval
  | DescribeTrainingJob pyval
  | StopTrainingJob pyval
  | DescribeAlgorithm pyval
  | PrintCloudwatchLogs string pyval

type_synonym sm_client = "event list \<Rightarrow> event \<Rightarrow> py_error + pyval"

record world =
  outputs :: "(string \<times> pyval) list"
  history :: "event list"

type_synonym 'a eff = "world \<Rightarrow> (py_error + 'a) \<times> world"

definition pure_eff :: "py_error + 'a \<Rightarrow> 'a eff" where
  "pure_eff m w = (m, w)"

definition bind_eff :: "'a eff \<Rightarrow> ('a \<Rightarrow> 'b eff) \<Rightarrow> 'b eff" where
  "bind_eff m f w = (case m w of (Inl e, w') \<Rightarrow> (Inl e, w') | (Inr x, w') \<Rightarrow> f x w')"

definition call :: "sm_client \<Rightarrow> event \<Rightarrow> pyval eff" where
  "call c e w = (c (history w) e, w\<lparr>history := history w @ [e]\<rparr>)"

definition set_output :: "string \<Rightarrow> pyval \<Rightarrow> unit eff" where
  "set_output k v w = (Inr (), w\<lparr>outputs := AList.update k v (outputs w)\<rparr>)"

section \<open>The request builder\<close>

text \<open>
  \<open>_create_job_request\<close> is one function in the source; the model follows it block by
  block, each block a definition that takes the request built so far and returns the
  request after the block, or the exception that ends the construction.
\<close>

text \<open>
  Loading the template and the first assignments: \<open>TrainingJobName\<close>, \<open>RoleArn\<close>,
  \<open>HyperParameters\<close> and the training input mode.
\<close>

definition new_request :: "environment \<Rightarrow> component \<Rightarrow> inputs \<Rightarrow> py_error + pyval" where
  "new_request env self i =
     bind_err (get_request_template env ''train'') (\<lambda>r0.
     bind_err (setitem r0 ''TrainingJobName'' (training_job_name self)) (\<lambda>r1.
     bind_err (setitem r1 ''RoleArn'' (inputs_get i ''role'')) (\<lambda>r2.
     bind_err (create_hyperparameters env (inputs_get i ''hyperparameters'')) (\<lambda>h.
     bind_err (setitem r2 ''HyperParameters'' h) (\<lambda>r3.
     setitem2 r3 ''AlgorithmSpecification'' ''TrainingInputMode''
       (inputs_get i ''training_input_mode''))))))"

text \<open>
  The \<open>else\<close> branch of the image selection: the algorithm name, lower-cased and
  stripped, is looked up among the keys of \<open>built_in_algos\<close>, then among its values;
  when neither has it, the name is kept as the caller wrote it. The branch reads the
  global names \<open>built_in_algos\<close>, \<open>get_image_uri\<close> and \<open>logging\<close>, in this order.
\<close>

definition built_in_warning :: string where
  "built_in_warning =
     ''Algorithm name is found as an Amazon built-in algorithm. Using built-in algorithm.''"

definition use_built_in :: "environment \<Rightarrow> inputs \<Rightarrow> pyval \<Rightarrow> string \<Rightarrow> pyval logged" where
  "use_built_in env i r algo =
     then_do (quiet (
       bind_err (global_name ''get_image_uri'' (get_image_uri env)) (\<lambda>uri.
       bind_err (uri (inputs_get i ''region'') algo) (\<lambda>img.
       bind_err (setitem2 r ''AlgorithmSpecification'' ''TrainingImage'' img) (\<lambda>r1.
       pop2 r1 ''AlgorithmSpecification'' ''AlgorithmName'')))))
       (\<lambda>r2. then_do (log_record env WARNING built_in_warning) (\<lambda>_. ([], Inr r2)))"

definition resolve_algorithm :: "environment \<Rightarrow> inputs \<Rightarrow> pyval \<Rightarrow> pyval logged" where
  "resolve_algorithm env i r =
     then_do (quiet (lower_strip (inputs_get i ''algorithm_name''))) (\<lambda>algo_name.
     then_do (quiet (global_name ''built_in_algos'' (built_in_algos env))) (\<lambda>algos.
       case map_of algos algo_name of
         Some v \<Rightarrow> use_built_in env i r v
       | None \<Rightarrow>
           if algo_name \<in> set (map snd algos) then use_built_in env i r algo_name
           else
             quiet (
               bind_err (setitem2 r ''AlgorithmSpecification'' ''AlgorithmName''
                           (inputs_get i ''algorithm_name'')) (\<lambda>r1.
               pop2 r1 ''AlgorithmSpecification'' ''TrainingImage''))))"

text \<open>The training image or the algorithm resource name.\<close>

definition select_algorithm :: "environment \<Rightarrow> inputs \<Rightarrow> pyval \<Rightarrow> pyval logged" where
  "select_algorithm env i r =
     (if \<not> truthy (inputs_get i ''image'') \<and> \<not> truthy (inputs_get i ''algorithm_name'') then
        then_do (log_record env ERROR ''Please specify training image or algorithm name.'')
          (\<lambda>_. ([], Inl (Exception ''Could not create job request'')))
      else
        then_do
          (if truthy (inputs_get i ''image'') \<and> truthy (inputs_get i ''algorithm_name'') then
             log_record env ERROR
               ''Both image and algorithm name inputted, only one should be specified. Proceeding with image.''
           else ([], Inr ()))
          (\<lambda>_. if truthy (inputs_get i ''image'') then
                 quiet (
                   bind_err (setitem2 r ''AlgorithmSpecification'' ''TrainingImage''
                               (inputs_get i ''image'')) (\<lambda>r1.
                   pop2 r1 ''AlgorithmSpecification'' ''AlgorithmName''))
               else resolve_algorithm env i r))"

text \<open>The metric definitions: one entry appended for each item, or the key removed.\<close>

fun append_metric_definitions :: "(string \<times> pyval) list \<Rightarrow> pyval \<Rightarrow> py_error + pyval" where
  "append_metric_definitions [] r = Inr r"
| "append_metric_definitions ((key, val) # kvs) r =
     bind_err (append2 r ''AlgorithmSpecification'' ''MetricDefinitions''
                 (PDict [(''Name'', PStr key), (''Regex'', val)]))
       (append_metric_definitions kvs)"

definition update_metric_definitions :: "inputs \<Rightarrow> pyval \<Rightarrow> py_error + pyval" where
  "update_metric_definitions i r =
     (if truthy (inputs_get i ''metric_definitions'') then
        bind_err (items (inputs_get i ''metric_definitions'')) (\<lambda>kvs.
        append_metric_definitions kvs r)
      else pop2 r ''AlgorithmSpecification'' ''MetricDefinitions'')"

text \<open>The VPC configuration: both lists written, or the block removed.\<close>

definition update_vpc_config :: "inputs \<Rightarrow> pyval \<Rightarrow> py_error + pyval" where
  "update_vpc_config i r =
     (if truthy (inputs_get i ''vpc_security_group_ids'') \<and> truthy (inputs_get i ''vpc_subnets'')
      then
        bind_err (py_split (inputs_get i ''vpc_security_group_ids'') (CHR '','')) (\<lambda>groups.
        bind_err (setitem2 r ''VpcConfig'' ''SecurityGroupIds'' groups) (\<lambda>r1.
        bind_err (py_split (inputs_get i ''vpc_subnets'') (CHR '','')) (\<lambda>subnets.
        setitem2 r1 ''VpcConfig'' ''Subnets'' subnets)))
      else pop r ''VpcConfig'')"

text \<open>The input channels: at least one is required.\<close>

definition update_input_channels :: "environment \<Rightarrow> inputs \<Rightarrow> pyval \<Rightarrow> pyval logged" where
  "update_input_channels env i r =
     then_do (quiet (py_len (inputs_get i ''channels''))) (\<lambda>n.
       if n > 0 then quiet (setitem r ''InputDataConfig'' (inputs_get i ''channels''))
       else
         then_do (log_record env ERROR ''Must specify at least one input channel.'')
           (\<lambda>_. ([], Inl (Exception ''Could not create job request''))))"

text \<open>The output location, the instance type, the encryption keys and the two flags.\<close>

definition update_output_and_resources :: "inputs \<Rightarrow> pyval \<Rightarrow> py_error + pyval" where
  "update_output_and_resources i r =
     bind_err (setitem2 r ''OutputDataConfig'' ''S3OutputPath''
                 (inputs_get i ''model_artifact_path'')) (\<lambda>r1.
     bind_err (setitem2 r1 ''OutputDataConfig'' ''KmsKeyId''
                 (inputs_get i ''output_encryption_key'')) (\<lambda>r2.
     bind_err (setitem2 r2 ''ResourceConfig'' ''InstanceType''
                 (inputs_get i ''instance_type'')) (\<lambda>r3.
     bind_err (setitem2 r3 ''ResourceConfig'' ''VolumeKmsKeyId''
                 (inputs_get i ''resource_encryption_key'')) (\<lambda>r4.
     bind_err (setitem r4 ''EnableNetworkIsolation'' (inputs_get i ''network_isolation'')) (\<lambda>r5.
     setitem r5 ''EnableInterContainerTrafficEncryption''
       (inputs_get i ''traffic_encryption''))))))"

text \<open>Instance count, volume size and maximum run time: written only when truthy.\<close>

definition update_numeric_overrides :: "inputs \<Rightarrow> pyval \<Rightarrow> py_error + pyval" where
  "update_numeric_overrides i r =
     bind_err (if truthy (inputs_get i ''instance_count'')
               then setitem2 r ''ResourceConfig'' ''InstanceCount'' (inputs_get i ''instance_count'')
               else Inr r) (\<lambda>r1.
     bind_err (if truthy (inputs_get i ''volume_size'')
               then setitem2 r1 ''ResourceConfig'' ''VolumeSizeInGB'' (inputs_get i ''volume_size'')
               else Inr r1) (\<lambda>r2.
     if truthy (inputs_get i ''max_run_time'')
     then setitem2 r2 ''StoppingCondition'' ''MaxRuntimeInSeconds'' (inputs_get i ''max_run_time'')
     else Inr r2))"

text \<open>The tags: one entry appended to \<open>request["Tags"]\<close> for each item.\<close>

fun append_tags :: "(string \<times> pyval) list \<Rightarrow> pyval \<Rightarrow> py_error + pyval" where
  "append_tags [] r = Inr r"
| "append_tags ((key, val) # kvs) r =
     bind_err (append1 r ''Tags'' (PDict [(''Key'', PStr key), (''Value'', val)]))
       (append_tags kvs)"

definition update_tags :: "inputs \<Rightarrow> pyval \<Rightarrow> py_error + pyval" where
  "update_tags i r =
     bind_err (items (inputs_get_default i ''tags'' (PDict []))) (\<lambda>kvs. append_tags kvs r)"

text \<open>
  The blocks in the order of the source. \<open>request_before_channels\<close> is the function up
  to the check of the channels, \<open>request_after_channels\<close> what follows it.
\<close>

definition request_before_channels :: "environment \<Rightarrow> component \<Rightarrow> inputs \<Rightarrow> pyval logged" where
  "request_before_channels env self i =
     then_do (quiet (new_request env self i)) (\<lambda>r1.
     then_do (select_algorithm env i r1) (\<lambda>r2.
     then_do (quiet (update_metric_definitions i r2)) (\<lambda>r3.
     quiet (update_vpc_config i r3))))"

definition request_after_channels :: "environment \<Rightarrow> inputs \<Rightarrow> pyval \<Rightarrow> py_error + pyval" where
  "request_after_channels env i r5 =
     bind_err (update_output_and_resources i r5) (\<lambda>r6.
     bind_err (update_numeric_overrides i r6) (\<lambda>r7.
     bind_err (enable_spot_instance_support env r7 i) (\<lambda>r8.
     update_tags i r8)))"

definition create_job_request :: "environment \<Rightarrow> component \<Rightarrow> inputs \<Rightarrow> pyval logged" where
  "create_job_request env self i =
     then_do (request_before_channels env self i) (\<lambda>r4.
     then_do (update_input_channels env i r4) (\<lambda>r5.
     quiet (request_after_channels env i r5)))"

section \<open>The hooks of the job lifecycle\<close>

subsection \<open>The job name\<close>



subsection \<open>Status\<close>

text \<open>
  \<open>SageMakerJobStatus\<close> is declared in the base module. A value is the keyword arguments
  the source passes to its constructor; \<open>None\<close> is an argument that is not passed.
\<close>

record job_status =
  is_completed :: bool
  has_error :: "bool option"
  error_message :: "pyval option"

definition classify_status :: "pyval \<Rightarrow> py_error + job_status" where
  "classify_status response =
     bind_err (getitem response ''TrainingJobStatus'') (\<lambda>status.
       if status = PStr ''Completed'' then
         Inr \<lparr>is_completed = True, has_error = Some False, error_message = None\<rparr>
       else if status = PStr ''Failed'' then
         bind_err (getitem response ''FailureReason'') (\<lambda>message.
         Inr \<lparr>is_completed = True, has_error = Some True, error_message = Some message\<rparr>)
       else Inr \<lparr>is_completed = False, has_error = None, error_message = None\<rparr>)"

definition get_job_status :: "sm_client \<Rightarrow> component \<Rightarrow> job_status eff" where
  "get_job_status c self =
     bind_eff (call c (DescribeTrainingJob (training_job_name self))) (\<lambda>response.
     pure_eff (classify_status response))"

subsection \<open>Outputs\<close>

definition get_model_artifacts_from_job :: "sm_client \<Rightarrow> component \<Rightarrow> pyval eff" where
  "get_model_artifacts_from_job c self =
     bind_eff (call c (DescribeTrainingJob (training_job_name self))) (\<lambda>info.
     pure_eff (bind_err (getitem info ''ModelArtifacts'') (\<lambda>m. getitem m ''S3ModelArtifacts'')))"

text \<open>
  \<open>"TrainingImage" in x\<close> followed by \<open>x["TrainingImage"]\<close> or \<open>x["AlgorithmName"]\<close>:
  when \<open>x\<close> is not a dictionary, either the test or the subscript with a string raises
  \<open>TypeError\<close>.
\<close>

definition get_image_from_job :: "sm_client \<Rightarrow> component \<Rightarrow> pyval eff" where
  "get_image_from_job c self =
     bind_eff (call c (DescribeTrainingJob (training_job_name self))) (\<lambda>info.
     bind_eff (pure_eff (getitem info ''AlgorithmSpecification'')) (\<lambda>a.
       case a of
         PDict d \<Rightarrow>
           (case map_of d ''TrainingImage'' of
              Some img \<Rightarrow> pure_eff (Inr img)
            | None \<Rightarrow>
                bind_eff (pure_eff (getitem a ''AlgorithmName'')) (\<lambda>algorithm_name.
                bind_eff (call c (DescribeAlgorithm algorithm_name)) (\<lambda>r.
                pure_eff (bind_err (getitem r ''TrainingSpecification'') (\<lambda>t.
                          getitem t ''TrainingImage'')))))
       | _ \<Rightarrow> pure_eff (Inl TypeError)))"

definition after_job_complete :: "sm_client \<Rightarrow> component \<Rightarrow> unit eff" where
  "after_job_complete c self =
     bind_eff (set_output ''job_name'' (training_job_name self)) (\<lambda>_.
     bind_eff (get_model_artifacts_from_job c self) (\<lambda>url.
     bind_eff (set_output ''model_artifact_url'' url) (\<lambda>_.
     bind_eff (get_image_from_job c self) (\<lambda>img.
     set_output ''training_image'' img))))"

subsection \<open>Termination and logs\<close>

text \<open>
  Both hooks read the global name \<open>job_name\<close>, not \<open>self._training_job_name\<close>. The
  argument is evaluated before the call: with the name unbound, the \<open>NameError\<close> is
  raised and nothing is called.
\<close>

definition on_job_terminated :: "environment \<Rightarrow> sm_client \<Rightarrow> component \<Rightarrow> unit eff" where
  "on_job_terminated env c self =
     (case job_name env of
        None \<Rightarrow> pure_eff (Inl (NameError ''job_name''))
      | Some n \<Rightarrow> bind_eff (call c (StopTrainingJob n)) (\<lambda>_. pure_eff (Inr ())))"

definition print_logs_for_job :: "environment \<Rightarrow> sm_client \<Rightarrow> component \<Rightarrow> unit eff" where
  "print_logs_for_job env c self =
     (case job_name env of
        None \<Rightarrow> pure_eff (Inl (NameError ''job_name''))
      | Some n \<Rightarrow>
          bind_eff (call c (PrintCloudwatchLogs ''/aws/sagemaker/TrainingJobs'' n))
            (\<lambda>_. pure_eff (Inr ())))"

subsection \<open>Submission\<close>

text \<open>\<open>create_training_job(**request)\<close>: the request must be a mapping.\<close>

definition submit_job_request :: "sm_client \<Rightarrow> pyval \<Rightarrow> unit eff" where
  "submit_job_request c request =
     (case request of
        PDict d \<Rightarrow> bind_eff (call c (CreateTrainingJob request)) (\<lambda>_. pure_eff (Inr ()))
      | _ \<Rightarrow> pure_eff (Inl TypeError))"

section \<open>What the builder may assume of the spot-instance helper\<close>

text \<open>
  Modelled from the spec: \<open>_enable_spot_instance_support\<close> is a method of the base
  class and is not in the source. The spec says that it adds the managed-spot flag and
  a checkpoint configuration and that it checks the maximum wait time of the stopping
  condition. Its frame is therefore: it leaves every top-level entry of the request
  alone except \<open>EnableManagedSpotTraining\<close>, \<open>StoppingCondition\<close> and
  \<open>CheckpointConfig\<close>, and inside \<open>StoppingCondition\<close> it leaves the maximum run time
  alone.
\<close>

definition spot_support_frame :: "environment \<Rightarrow> bool" where
  "spot_support_frame env \<longleftrightarrow>
     (\<forall>r i r'. enable_spot_instance_support env r i = Inr r' \<longrightarrow>
        (\<forall>k. k \<notin> {''EnableManagedSpotTraining'', ''StoppingCondition'', ''CheckpointConfig''} \<longrightarrow>
             lookup1 r' k = lookup1 r k) \<and>
        lookup2 r' ''StoppingCondition'' ''MaxRuntimeInSeconds'' =
          lookup2 r ''StoppingCondition'' ''MaxRuntimeInSeconds'')"

text \<open>The entries that the two loops of the builder append.\<close>

definition metric_entry :: "string \<times> pyval \<Rightarrow> pyval" where
  "metric_entry kv = PDict [(''Name'', PStr (fst kv)), (''Regex'', snd kv)]"

definition tag_entry :: "string \<times> pyval \<Rightarrow> pyval" where
  "tag_entry kv = PDict [(''Key'', PStr (fst kv)), (''Value'', snd kv)]"

section \<open>A concrete environment\<close>

text \<open>
  To run the model: a template with the blocks that \<open>_create_job_request\<close> reads and
  writes, a spot-instance helper within the frame above, the four global names unbound,
  as the file leaves them, and inputs that name an image.
\<close>

definition example_template :: pyval where
  "example_template = PDict
     [(''TrainingJobName'', PStr ''''),
      (''HyperParameters'', PDict []),
      (''AlgorithmSpecification'', PDict
         [(''TrainingImage'', PStr ''''),
          (''AlgorithmName'', PStr ''''),
          (''TrainingInputMode'', PStr ''''),
          (''MetricDefinitions'', PList [])]),
      (''RoleArn'', PStr ''''),
      (''InputDataConfig'', PList []),
      (''OutputDataConfig'', PDict [(''KmsKeyId'', PStr ''''), (''S3OutputPath'', PStr '''')]),
      (''ResourceConfig'', PDict
         [(''InstanceType'', PStr ''''),
          (''InstanceCount'', PInt 1),
          (''VolumeSizeInGB'', PInt 1),
          (''VolumeKmsKeyId'', PStr '''')]),
      (''VpcConfig'', PDict [(''SecurityGroupIds'', PList []), (''Subnets'', PList [])]),
      (''StoppingCondition'', PDict
         [(''MaxRuntimeInSeconds'', PInt 86400), (''MaxWaitTimeInSeconds'', PInt 86400)]),
      (''CheckpointConfig'', PDict [(''S3Uri'', PStr ''''), (''LocalPath'', PStr '''')]),
      (''Tags'', PList []),
      (''EnableNetworkIsolation'', PBool True),
      (''EnableInterContainerTrafficEncryption'', PBool False),
      (''EnableManagedSpotTraining'', PBool False)]"

definition example_spot_support :: "pyval \<Rightarrow> inputs \<Rightarrow> py_error + pyval" where
  "example_spot_support r i =
     (if truthy (inputs_get i ''spot_instance'') then
        if truthy (inputs_get i ''max_wait_time'') then
          bind_err (setitem r ''EnableManagedSpotTraining'' (inputs_get i ''spot_instance'')) (\<lambda>r1.
          bind_err (setitem2 r1 ''StoppingCondition'' ''MaxWaitTimeInSeconds''
                      (inputs_get i ''max_wait_time'')) (\<lambda>r2.
          setitem r2 ''CheckpointConfig'' (inputs_get i ''checkpoint_config'')))
        else Inl (Exception ''Could not create job request'')
      else Inr r)"

definition example_env :: environment where
  "example_env =
     \<lparr>get_request_template =
        (\<lambda>name. if name = ''train'' then Inr example_template else Inl (KeyError name)),
      create_hyperparameters =
        (\<lambda>h. case h of PNone \<Rightarrow> Inr (PDict []) | PDict d \<Rightarrow> Inr (PDict d) | _ \<Rightarrow> Inl TypeError),
      enable_spot_instance_support = example_spot_support,
      built_in_algos = None,
      get_image_uri = None,
      logging = None,
      job_name = None\<rparr>"

definition example_self :: component where
  "example_self = \<lparr>training_job_name = PStr ''job-A''\<rparr>"

definition example_inputs :: inputs where
  "example_inputs =
     [(''job_name'', PStr ''job-A''),
      (''role'', PStr ''arn:role''),
      (''region'', PStr ''us-east-1''),
      (''image'', PStr ''registry/image:1''),
      (''channels'', PList [PDict [(''ChannelName'', PStr ''train'')]]),
      (''instance_type'', PStr ''ml.m4.xlarge''),
      (''instance_count'', PInt 2),
      (''volume_size'', PInt 0),
      (''model_artifact_path'', PStr ''s3://bucket/out'')]"

text \<open>The same inputs with an algorithm name as well.\<close>

definition inputs_image_and_algorithm :: inputs where
  "inputs_image_and_algorithm =
     [(''job_name'', PStr ''job-A''),
      (''role'', PStr ''arn:role''),
      (''region'', PStr ''us-east-1''),
      (''image'', PStr ''registry/image:1''),
      (''algorithm_name'', PStr ''xgboost''),
      (''channels'', PList [PDict [(''ChannelName'', PStr ''train'')]]),
      (''instance_type'', PStr ''ml.m4.xlarge''),
      (''instance_count'', PInt 2),
      (''volume_size'', PInt 0),
      (''model_artifact_path'', PStr ''s3://bucket/out'')]"

definition example_client :: sm_client where
  "example_client h e =
     (case e of
        DescribeTrainingJob n \<Rightarrow>
          if n = PStr ''job-A'' then
            Inr (PDict
              [(''TrainingJobStatus'', PStr ''Completed''),
               (''ModelArtifacts'', PDict [(''S3ModelArtifacts'', PStr ''s3://bucket/out/model.tar.gz'')]),
               (''AlgorithmSpecification'', PDict [(''TrainingImage'', PStr ''registry/image:1'')])])
          else if n = PStr ''job-B'' then
            Inr (PDict
              [(''TrainingJobStatus'', PStr ''Completed''),
               (''ModelArtifacts'', PDict [(''S3ModelArtifacts'', PStr ''s3://bucket/b/model.tar.gz'')]),
               (''AlgorithmSpecification'', PDict [(''AlgorithmName'', PStr ''my-algo'')])])
          else if n = PStr ''job-F'' then
            Inr (PDict
              [(''TrainingJobStatus'', PStr ''Failed''),
               (''FailureReason'', PStr ''OutOfMemory'')])
          else if n = PStr ''job-R'' then
            Inr (PDict [(''TrainingJobStatus'', PStr ''InProgress'')])
          else Inl (ClientError ''ResourceNotFound'')
      | DescribeAlgorithm n \<Rightarrow>
          if n = PStr ''my-algo'' then
            Inr (PDict [(''TrainingSpecification'',
                         PDict [(''TrainingImage'', PStr ''registry/my-algo:2'')])])
          else Inl (ClientError ''ResourceNotFound'')
      | _ \<Rightarrow> Inr PNone)"

definition empty_world :: world where
  "empty_world = \<lparr>outputs = [], history = []\<rparr>"

text \<open>The request that the builder returns on \<open>example_inputs\<close>.\<close>

definition example_request :: pyval where
  "example_request = PDict
     [(''TrainingJobName'', PStr ''job-A''),
      (''HyperParameters'', PDict []),
      (''AlgorithmSpecification'', PDict
         [(''TrainingImage'', PStr ''registry/image:1''),
          (''TrainingInputMode'', PNone)]),
      (''RoleArn'', PStr ''arn:role''),
      (''InputDataConfig'', PList [PDict [(''ChannelName'', PStr ''train'')]]),
      (''OutputDataConfig'', PDict
         [(''KmsKeyId'', PNone), (''S3OutputPath'', PStr ''s3://bucket/out'')]),
      (''ResourceConfig'', PDict
         [(''InstanceType'', PStr ''ml.m4.xlarge''),
          (''InstanceCount'', PInt 2),
          (''VolumeSizeInGB'', PInt 1),
          (''VolumeKmsKeyId'', PNone)]),
      (''StoppingCondition'', PDict
         [(''MaxRuntimeInSeconds'', PInt 86400), (''MaxWaitTimeInSeconds'', PInt 86400)]),
      (''CheckpointConfig'', PDict [(''S3Uri'', PStr ''''), (''LocalPath'', PStr '''')]),
      (''Tags'', PList []),
      (''EnableNetworkIsolation'', PNone),
      (''EnableInterContainerTrafficEncryption'', PNone),
      (''EnableManagedSpotTraining'', PBool False)]"

text \<open>Inputs that name neither an image nor an algorithm.\<close>

definition inputs_without_algorithm :: inputs where
  "inputs_without_algorithm =
     [(''role'', PStr ''arn:role''),
      (''region'', PStr ''us-east-1''),
      (''channels'', PList [PDict [(''ChannelName'', PStr ''train'')]])]"

text \<open>Inputs with an empty list of channels, and inputs without the key.\<close>

definition inputs_empty_channels :: inputs where
  "inputs_empty_channels =
     [(''role'', PStr ''arn:role''),
      (''region'', PStr ''us-east-1''),
      (''image'', PStr ''registry/image:1''),
      (''channels'', PList [])]"


text \<open>Inputs that name an algorithm and no image.\<close>

definition inputs_with_algorithm :: "string \<Rightarrow> inputs" where
  "inputs_with_algorithm a =
     [(''role'', PStr ''arn:role''),
      (''region'', PStr ''us-east-1''),
      (''algorithm_name'', PStr a),
      (''channels'', PList [PDict [(''ChannelName'', PStr ''train'')]])]"

text \<open>Inputs with every optional block: VPC, metric definitions, keys and tags.\<close>

definition inputs_with_options :: inputs where
  "inputs_with_options =
     [(''role'', PStr ''arn:role''),
      (''region'', PStr ''us-east-1''),
      (''image'', PStr ''registry/image:1''),
      (''channels'', PList [PDict [(''ChannelName'', PStr ''train'')]]),
      (''vpc_security_group_ids'', PStr ''sg-1,sg-2''),
      (''vpc_subnets'', PStr ''subnet-1''),
      (''metric_definitions'', PDict [(''loss'', PStr ''loss: (.*)'')]),
      (''output_encryption_key'', PStr ''key-1''),
      (''resource_encryption_key'', PStr ''key-2''),
      (''tags'', PDict [(''team'', PStr ''ml'')])]"

section \<open>Lemmas on dictionaries\<close>

lemma bind_err_Inr: "bind_err m f = Inr y \<longleftrightarrow> (\<exists>x. m = Inr x \<and> f x = Inr y)"
  by (cases m) (simp_all add: bind_err_def)

lemma snd_quiet: "snd (quiet m) = m" and fst_quiet: "fst (quiet m) = []"
  by (simp_all add: quiet_def)

lemma then_do_Inl: "then_do (l, Inl e) f = (l, Inl e)"
  by (simp add: then_do_def)

lemma then_do_Inr: "then_do (l, Inr x) f = (case f x of (l', y) \<Rightarrow> (l @ l', y))"
  by (simp add: then_do_def)

lemma bind_err_Inl_eq: "bind_err (Inl e) f = Inl e"
  by (simp add: bind_err_def)

lemma bind_err_Inr_eq: "bind_err (Inr x) f = f x"
  by (simp add: bind_err_def)

lemma snd_then_do_Inr: "snd (then_do m f) = Inr y \<longleftrightarrow> (\<exists>x. snd m = Inr x \<and> snd (f x) = Inr y)"
  by (cases m; cases "snd m") (auto simp: then_do_def split: prod.splits)

lemma getitem_Inr: "getitem r k = Inr x \<longleftrightarrow> lookup1 r k = Some x"
  by (cases r) (auto split: option.splits)

lemma lookup1_setitem:
  "setitem r k v = Inr r' \<Longrightarrow> lookup1 r' = (lookup1 r)(k \<mapsto> v)"
  by (cases r) (auto simp: update_conv' fun_eq_iff)

lemma lookup1_pop:
  "pop r k = Inr r' \<Longrightarrow> lookup1 r' = (lookup1 r)(k := None)"
  by (cases r) (auto simp: delete_conv' fun_eq_iff split: option.splits)

lemma lookup1_py_append:
  "py_append x v = Inr x' \<Longrightarrow> \<exists>xs. x = PList xs \<and> x' = PList (xs @ [v])"
  by (cases x) auto

lemma lookup1_setitem2:
  "setitem2 r a b v = Inr r' \<Longrightarrow> k \<noteq> a \<Longrightarrow> lookup1 r' k = lookup1 r k"
  by (auto simp: setitem2_def bind_err_Inr dest!: lookup1_setitem)

lemma lookup2_setitem2:
  "setitem2 r a b v = Inr r' \<Longrightarrow>
   lookup2 r' a' b' = (if a' = a \<and> b' = b then Some v else lookup2 r a' b')"
  by (auto simp: setitem2_def bind_err_Inr lookup2_def getitem_Inr dest!: lookup1_setitem)

lemma lookup1_pop2:
  "pop2 r a b = Inr r' \<Longrightarrow> k \<noteq> a \<Longrightarrow> lookup1 r' k = lookup1 r k"
  by (auto simp: pop2_def bind_err_Inr dest!: lookup1_setitem)

lemma lookup2_pop2:
  "pop2 r a b = Inr r' \<Longrightarrow>
   lookup2 r' a' b' = (if a' = a \<and> b' = b then None else lookup2 r a' b')"
  by (auto simp: pop2_def bind_err_Inr lookup2_def getitem_Inr dest!: lookup1_setitem lookup1_pop)

lemma lookup1_append1:
  "append1 r a v = Inr r' \<Longrightarrow> k \<noteq> a \<Longrightarrow> lookup1 r' k = lookup1 r k"
  by (auto simp: append1_def bind_err_Inr dest!: lookup1_setitem)

lemma lookup1_append1_same:
  "append1 r a v = Inr r' \<Longrightarrow>
   \<exists>xs. lookup1 r a = Some (PList xs) \<and> lookup1 r' a = Some (PList (xs @ [v]))"
  by (auto simp: append1_def bind_err_Inr getitem_Inr dest!: lookup1_setitem lookup1_py_append)

lemma lookup1_append2:
  "append2 r a b v = Inr r' \<Longrightarrow> k \<noteq> a \<Longrightarrow> lookup1 r' k = lookup1 r k"
  by (auto simp: append2_def bind_err_Inr dest!: lookup1_setitem)

lemma lookup2_append2:
  "append2 r a b v = Inr r' \<Longrightarrow> a' \<noteq> a \<or> b' \<noteq> b \<Longrightarrow> lookup2 r' a' b' = lookup2 r a' b'"
  by (auto simp: append2_def bind_err_Inr lookup2_def getitem_Inr
           dest!: lookup1_setitem dest: lookup1_append1)

lemma lookup2_append2_same:
  "append2 r a b v = Inr r' \<Longrightarrow>
   \<exists>xs. lookup2 r a b = Some (PList xs) \<and> lookup2 r' a b = Some (PList (xs @ [v]))"
  by (auto simp: append2_def bind_err_Inr lookup2_def getitem_Inr
           dest!: lookup1_setitem lookup1_append1_same)

lemma lookup2_cong: "lookup1 r' a = lookup1 r a \<Longrightarrow> lookup2 r' a b = lookup2 r a b"
  by (simp add: lookup2_def)

section \<open>Lemmas on the blocks of the builder\<close>


lemma snd_then_do:
  "snd (then_do m f) = (case snd m of Inl e \<Rightarrow> Inl e | Inr x \<Rightarrow> snd (f x))"
  by (cases m; cases "snd m") (auto simp: then_do_def split: prod.splits)

subsection \<open>The first assignments\<close>

lemma new_request_Inr:
  assumes "new_request env self i = Inr r1"
  shows "\<exists>t. get_request_template env ''train'' = Inr t \<and>
           lookup1 r1 ''TrainingJobName'' = Some (training_job_name self) \<and>
           (\<forall>k. k \<notin> {''TrainingJobName'', ''RoleArn'', ''HyperParameters'', ''AlgorithmSpecification''}
              \<longrightarrow> lookup1 r1 k = lookup1 t k) \<and>
           (\<forall>b. b \<noteq> ''TrainingInputMode'' \<longrightarrow>
              lookup2 r1 ''AlgorithmSpecification'' b = lookup2 t ''AlgorithmSpecification'' b)"
proof -
  from assms obtain t ra rb h rc where
    t: "get_request_template env ''train'' = Inr t"
    and a: "setitem t ''TrainingJobName'' (training_job_name self) = Inr ra"
    and b: "setitem ra ''RoleArn'' (inputs_get i ''role'') = Inr rb"
    and c: "setitem rb ''HyperParameters'' h = Inr rc"
    and d: "setitem2 rc ''AlgorithmSpecification'' ''TrainingInputMode''
              (inputs_get i ''training_input_mode'') = Inr r1"
    unfolding new_request_def bind_err_Inr by blast
  note l1 = lookup1_setitem[OF a] lookup1_setitem[OF b] lookup1_setitem[OF c]
  have top: "lookup1 r1 k = lookup1 rc k" if "k \<noteq> ''AlgorithmSpecification''" for k
    using lookup1_setitem2[OF d that] .
  have as: "lookup2 rc ''AlgorithmSpecification'' b = lookup2 t ''AlgorithmSpecification'' b" for b
    by (simp add: lookup2_def l1)
  show ?thesis
    using t top as lookup2_setitem2[OF d] by (auto simp: l1)
qed

subsection \<open>Image or algorithm name\<close>

lemma set_and_pop:
  assumes "bind_err (setitem2 r a x v) (\<lambda>r1. pop2 r1 a y) = Inr r'" and "x \<noteq> y"
  shows "lookup2 r' a x = Some v" and "lookup2 r' a y = None"
    and "b \<noteq> x \<Longrightarrow> b \<noteq> y \<Longrightarrow> lookup2 r' a b = lookup2 r a b"
    and "k \<noteq> a \<Longrightarrow> lookup1 r' k = lookup1 r k"
proof -
  from assms(1) obtain r1 where s: "setitem2 r a x v = Inr r1" and p: "pop2 r1 a y = Inr r'"
    unfolding bind_err_Inr by blast
  show "lookup2 r' a x = Some v" "lookup2 r' a y = None"
    using assms(2) by (simp_all add: lookup2_pop2[OF p] lookup2_setitem2[OF s])
  show "b \<noteq> x \<Longrightarrow> b \<noteq> y \<Longrightarrow> lookup2 r' a b = lookup2 r a b"
    by (simp add: lookup2_pop2[OF p] lookup2_setitem2[OF s])
  show "k \<noteq> a \<Longrightarrow> lookup1 r' k = lookup1 r k"
    by (simp add: lookup1_pop2[OF p] lookup1_setitem2[OF s])
qed

lemma use_built_in_Inr:
  assumes "snd (use_built_in env i r algo) = Inr r'"
  shows "\<exists>v. bind_err (setitem2 r ''AlgorithmSpecification'' ''TrainingImage'' v)
               (\<lambda>r1. pop2 r1 ''AlgorithmSpecification'' ''AlgorithmName'') = Inr r'"
proof -
  from assms obtain r2 where
    "bind_err (global_name ''get_image_uri'' (get_image_uri env)) (\<lambda>uri.
     bind_err (uri (inputs_get i ''region'') algo) (\<lambda>img.
     bind_err (setitem2 r ''AlgorithmSpecification'' ''TrainingImage'' img) (\<lambda>r1.
     pop2 r1 ''AlgorithmSpecification'' ''AlgorithmName''))) = Inr r2"
    and "snd (then_do (log_record env WARNING built_in_warning) (\<lambda>_. ([], Inr r2))) = Inr r'"
    unfolding use_built_in_def snd_then_do_Inr snd_quiet by blast
  then show ?thesis
    by (auto simp: bind_err_Inr snd_then_do_Inr)
qed

lemma resolve_algorithm_frame:
  assumes "snd (resolve_algorithm env i r) = Inr r'"
  shows "k \<noteq> ''AlgorithmSpecification'' \<Longrightarrow> lookup1 r' k = lookup1 r k"
    and "b \<noteq> ''TrainingImage'' \<Longrightarrow> b \<noteq> ''AlgorithmName'' \<Longrightarrow>
         lookup2 r' ''AlgorithmSpecification'' b = lookup2 r ''AlgorithmSpecification'' b"
proof -
  from assms obtain algo_name algos where
    rest: "snd (case map_of algos algo_name of
         Some v \<Rightarrow> use_built_in env i r v
       | None \<Rightarrow>
           if algo_name \<in> set (map snd algos) then use_built_in env i r algo_name
           else
             quiet (
               bind_err (setitem2 r ''AlgorithmSpecification'' ''AlgorithmName''
                           (inputs_get i ''algorithm_name'')) (\<lambda>r1.
               pop2 r1 ''AlgorithmSpecification'' ''TrainingImage''))) = Inr r'"
    unfolding resolve_algorithm_def snd_then_do_Inr snd_quiet by blast
  have "(\<exists>v. bind_err (setitem2 r ''AlgorithmSpecification'' ''TrainingImage'' v) (\<lambda>r1.
             pop2 r1 ''AlgorithmSpecification'' ''AlgorithmName'') = Inr r') \<or>
        (\<exists>v. bind_err (setitem2 r ''AlgorithmSpecification'' ''AlgorithmName'' v) (\<lambda>r1.
             pop2 r1 ''AlgorithmSpecification'' ''TrainingImage'') = Inr r')"
  proof (cases "map_of algos algo_name")
    case (Some v)
    with rest show ?thesis using use_built_in_Inr[of env i r v r'] by simp
  next
    case None
    show ?thesis
    proof (cases "algo_name \<in> set (map snd algos)")
      case True
      with rest None show ?thesis using use_built_in_Inr[of env i r algo_name r'] by simp
    next
      case False
      with rest None show ?thesis by (auto simp: snd_quiet)
    qed
  qed
  then show "k \<noteq> ''AlgorithmSpecification'' \<Longrightarrow> lookup1 r' k = lookup1 r k"
    and "b \<noteq> ''TrainingImage'' \<Longrightarrow> b \<noteq> ''AlgorithmName'' \<Longrightarrow>
         lookup2 r' ''AlgorithmSpecification'' b = lookup2 r ''AlgorithmSpecification'' b"
    by (auto dest: set_and_pop(3,4))
qed

lemma log_record_cases:
  "log_record env level message = ([], Inl (NameError ''logging'')) \<or>
   log_record env level message = ([(level, message)], Inr ())"
  by (simp add: log_record_def split: option.splits)

lemma select_algorithm_neither:
  assumes "\<not> truthy (inputs_get i ''image'')" "\<not> truthy (inputs_get i ''algorithm_name'')"
  shows "\<exists>e. snd (select_algorithm env i r) = Inl e"
  using assms log_record_cases[of env ERROR "''Please specify training image or algorithm name.''"]
  by (auto simp: select_algorithm_def then_do_Inl then_do_Inr)

lemma select_algorithm_image:
  assumes "truthy (inputs_get i ''image'')" "snd (select_algorithm env i r) = Inr r'"
  shows "bind_err (setitem2 r ''AlgorithmSpecification'' ''TrainingImage'' (inputs_get i ''image''))
           (\<lambda>r1. pop2 r1 ''AlgorithmSpecification'' ''AlgorithmName'') = Inr r'"
  using assms by (auto simp: select_algorithm_def snd_then_do_Inr snd_quiet split: if_splits)

lemma select_algorithm_name:
  "\<not> truthy (inputs_get i ''image'') \<Longrightarrow> truthy (inputs_get i ''algorithm_name'') \<Longrightarrow>
   select_algorithm env i r = resolve_algorithm env i r"
  by (cases "resolve_algorithm env i r") (simp add: select_algorithm_def then_do_Inr)

lemma select_algorithm_frame:
  assumes "snd (select_algorithm env i r) = Inr r'"
  shows "k \<noteq> ''AlgorithmSpecification'' \<Longrightarrow> lookup1 r' k = lookup1 r k"
    and "b \<noteq> ''TrainingImage'' \<Longrightarrow> b \<noteq> ''AlgorithmName'' \<Longrightarrow>
         lookup2 r' ''AlgorithmSpecification'' b = lookup2 r ''AlgorithmSpecification'' b"
proof -
  consider (img) "truthy (inputs_get i ''image'')"
    | (name) "\<not> truthy (inputs_get i ''image'')" "truthy (inputs_get i ''algorithm_name'')"
    | (neither) "\<not> truthy (inputs_get i ''image'')" "\<not> truthy (inputs_get i ''algorithm_name'')"
    by blast
  then have "(k \<noteq> ''AlgorithmSpecification'' \<longrightarrow> lookup1 r' k = lookup1 r k) \<and>
    (b \<noteq> ''TrainingImage'' \<longrightarrow> b \<noteq> ''AlgorithmName'' \<longrightarrow>
         lookup2 r' ''AlgorithmSpecification'' b = lookup2 r ''AlgorithmSpecification'' b)"
  proof cases
    case img
    from select_algorithm_image[OF img assms] show ?thesis
      by (auto dest: set_and_pop(3,4))
  next
    case name
    with assms show ?thesis
      by (auto simp: select_algorithm_name dest: resolve_algorithm_frame)
  next
    case neither
    with assms select_algorithm_neither[OF neither, of env r] show ?thesis by simp
  qed
  then show "k \<noteq> ''AlgorithmSpecification'' \<Longrightarrow> lookup1 r' k = lookup1 r k"
    and "b \<noteq> ''TrainingImage'' \<Longrightarrow> b \<noteq> ''AlgorithmName'' \<Longrightarrow>
         lookup2 r' ''AlgorithmSpecification'' b = lookup2 r ''AlgorithmSpecification'' b"
    by simp_all
qed

subsection \<open>Metric definitions\<close>

lemma append_metric_definitions_frame:
  "append_metric_definitions kvs r = Inr r' \<Longrightarrow>
   (k \<noteq> ''AlgorithmSpecification'' \<longrightarrow> lookup1 r' k = lookup1 r k) \<and>
   (b \<noteq> ''MetricDefinitions'' \<longrightarrow>
      lookup2 r' ''AlgorithmSpecification'' b = lookup2 r ''AlgorithmSpecification'' b)"
proof (induction kvs arbitrary: r)
  case Nil
  then show ?case by simp
next
  case (Cons kv kvs)
  obtain key val where kv: "kv = (key, val)" by (cases kv)
  from Cons.prems obtain r1 where
    a: "append2 r ''AlgorithmSpecification'' ''MetricDefinitions''
          (PDict [(''Name'', PStr key), (''Regex'', val)]) = Inr r1"
    and b: "append_metric_definitions kvs r1 = Inr r'"
    by (auto simp: kv bind_err_Inr)
  from Cons.IH[OF b] lookup1_append2[OF a] lookup2_append2[OF a]
  show ?case by auto
qed

lemma append_metric_definitions_same:
  "append_metric_definitions kvs r = Inr r' \<Longrightarrow> kvs \<noteq> [] \<Longrightarrow>
   \<exists>xs. lookup2 r ''AlgorithmSpecification'' ''MetricDefinitions'' = Some (PList xs) \<and>
        lookup2 r' ''AlgorithmSpecification'' ''MetricDefinitions'' =
          Some (PList (xs @ map metric_entry kvs))"
proof (induction kvs arbitrary: r)
  case Nil
  then show ?case by simp
next
  case (Cons kv kvs)
  obtain key val where kv: "kv = (key, val)" by (cases kv)
  from Cons.prems obtain r1 where
    a: "append2 r ''AlgorithmSpecification'' ''MetricDefinitions'' (metric_entry kv) = Inr r1"
    and b: "append_metric_definitions kvs r1 = Inr r'"
    by (auto simp: kv bind_err_Inr metric_entry_def)
  from lookup2_append2_same[OF a] obtain xs where
    xs: "lookup2 r ''AlgorithmSpecification'' ''MetricDefinitions'' = Some (PList xs)"
    "lookup2 r1 ''AlgorithmSpecification'' ''MetricDefinitions'' = Some (PList (xs @ [metric_entry kv]))"
    by blast
  show ?case
  proof (cases "kvs = []")
    case True
    with b xs show ?thesis by simp
  next
    case False
    from Cons.IH[OF b False] xs show ?thesis by auto
  qed
qed

lemma update_metric_definitions_frame:
  assumes "update_metric_definitions i r = Inr r'"
  shows "k \<noteq> ''AlgorithmSpecification'' \<Longrightarrow> lookup1 r' k = lookup1 r k"
    and "b \<noteq> ''MetricDefinitions'' \<Longrightarrow>
         lookup2 r' ''AlgorithmSpecification'' b = lookup2 r ''AlgorithmSpecification'' b"
  using assms
  by (auto simp: update_metric_definitions_def bind_err_Inr lookup1_pop2 lookup2_pop2
           split: if_splits dest: append_metric_definitions_frame)

lemma update_metric_definitions_absent:
  "update_metric_definitions i r = Inr r' \<Longrightarrow> \<not> truthy (inputs_get i ''metric_definitions'') \<Longrightarrow>
   lookup2 r' ''AlgorithmSpecification'' ''MetricDefinitions'' = None"
  by (simp add: update_metric_definitions_def lookup2_pop2)

lemma items_Inr: "items x = Inr kvs \<longleftrightarrow> x = PDict kvs"
  by (cases x) auto

lemma update_metric_definitions_present:
  assumes "update_metric_definitions i r = Inr r'" "truthy (inputs_get i ''metric_definitions'')"
  shows "\<exists>kvs xs. inputs_get i ''metric_definitions'' = PDict kvs \<and>
           lookup2 r ''AlgorithmSpecification'' ''MetricDefinitions'' = Some (PList xs) \<and>
           lookup2 r' ''AlgorithmSpecification'' ''MetricDefinitions'' =
             Some (PList (xs @ map metric_entry kvs))"
proof -
  from assms obtain kvs where k: "inputs_get i ''metric_definitions'' = PDict kvs"
    and a: "append_metric_definitions kvs r = Inr r'"
    by (auto simp: update_metric_definitions_def bind_err_Inr items_Inr)
  from assms(2) k have "kvs \<noteq> []" by simp
  from append_metric_definitions_same[OF a this] k show ?thesis by blast
qed

subsection \<open>VPC configuration\<close>

lemma update_vpc_config_frame:
  "update_vpc_config i r = Inr r' \<Longrightarrow> k \<noteq> ''VpcConfig'' \<Longrightarrow> lookup1 r' k = lookup1 r k"
  by (auto simp: update_vpc_config_def bind_err_Inr lookup1_setitem2
           split: if_splits dest: lookup1_pop)

lemma update_vpc_config_absent:
  "update_vpc_config i r = Inr r' \<Longrightarrow>
   \<not> (truthy (inputs_get i ''vpc_security_group_ids'') \<and> truthy (inputs_get i ''vpc_subnets'')) \<Longrightarrow>
   lookup1 r' ''VpcConfig'' = None"
  by (auto simp: update_vpc_config_def dest: lookup1_pop)

lemma py_split_Inr: "py_split x c = Inr y \<longleftrightarrow> (\<exists>s. x = PStr s \<and> y = PList (map PStr (str_split c s)))"
  by (cases x) auto

lemma update_vpc_config_present:
  assumes "update_vpc_config i r = Inr r'"
    and "truthy (inputs_get i ''vpc_security_group_ids'')" "truthy (inputs_get i ''vpc_subnets'')"
  shows "\<exists>g s. inputs_get i ''vpc_security_group_ids'' = PStr g \<and>
           inputs_get i ''vpc_subnets'' = PStr s \<and>
           lookup2 r' ''VpcConfig'' ''SecurityGroupIds'' =
             Some (PList (map PStr (str_split (CHR '','') g))) \<and>
           lookup2 r' ''VpcConfig'' ''Subnets'' =
             Some (PList (map PStr (str_split (CHR '','') s)))"
proof -
  from assms obtain g s r1 where g: "inputs_get i ''vpc_security_group_ids'' = PStr g"
    and s: "inputs_get i ''vpc_subnets'' = PStr s"
    and a: "setitem2 r ''VpcConfig'' ''SecurityGroupIds''
              (PList (map PStr (str_split (CHR '','') g))) = Inr r1"
    and b: "setitem2 r1 ''VpcConfig'' ''Subnets''
              (PList (map PStr (str_split (CHR '','') s))) = Inr r'"
    by (auto simp: update_vpc_config_def bind_err_Inr py_split_Inr)
  show ?thesis
    using g s by (simp add: lookup2_setitem2[OF b] lookup2_setitem2[OF a])
qed

subsection \<open>Input channels\<close>

lemma update_input_channels_Inr:
  assumes "snd (update_input_channels env i r) = Inr r'"
  shows "lookup1 r' = (lookup1 r)(''InputDataConfig'' \<mapsto> inputs_get i ''channels'')"
    and "\<exists>n>0. py_len (inputs_get i ''channels'') = Inr n"
  using assms
  by (auto simp: update_input_channels_def snd_then_do_Inr snd_quiet
           split: if_splits dest: lookup1_setitem)




subsection \<open>Output and resources\<close>

lemma update_output_and_resources_Inr:
  assumes "update_output_and_resources i r = Inr r'"
  shows "k \<notin> {''OutputDataConfig'', ''ResourceConfig'', ''EnableNetworkIsolation'',
              ''EnableInterContainerTrafficEncryption''} \<Longrightarrow> lookup1 r' k = lookup1 r k"
    and "lookup2 r' ''OutputDataConfig'' ''KmsKeyId'' = Some (inputs_get i ''output_encryption_key'')"
    and "lookup2 r' ''ResourceConfig'' ''VolumeKmsKeyId'' =
           Some (inputs_get i ''resource_encryption_key'')"
    and "b \<notin> {''InstanceType'', ''VolumeKmsKeyId''} \<Longrightarrow>
         lookup2 r' ''ResourceConfig'' b = lookup2 r ''ResourceConfig'' b"
proof -
  from assms obtain r1 r2 r3 r4 r5 where
    s1: "setitem2 r ''OutputDataConfig'' ''S3OutputPath'' (inputs_get i ''model_artifact_path'') = Inr r1"
    and s2: "setitem2 r1 ''OutputDataConfig'' ''KmsKeyId'' (inputs_get i ''output_encryption_key'') = Inr r2"
    and s3: "setitem2 r2 ''ResourceConfig'' ''InstanceType'' (inputs_get i ''instance_type'') = Inr r3"
    and s4: "setitem2 r3 ''ResourceConfig'' ''VolumeKmsKeyId'' (inputs_get i ''resource_encryption_key'') = Inr r4"
    and s5: "setitem r4 ''EnableNetworkIsolation'' (inputs_get i ''network_isolation'') = Inr r5"
    and s6: "setitem r5 ''EnableInterContainerTrafficEncryption'' (inputs_get i ''traffic_encryption'') = Inr r'"
    unfolding update_output_and_resources_def bind_err_Inr by blast
  note top = lookup1_setitem[OF s6] lookup1_setitem[OF s5]
  have l2: "lookup2 r' a b = lookup2 r4 a b"
    if "a \<noteq> ''EnableNetworkIsolation''" "a \<noteq> ''EnableInterContainerTrafficEncryption''" for a b
    using that by (simp add: lookup2_def top)
  show "k \<notin> {''OutputDataConfig'', ''ResourceConfig'', ''EnableNetworkIsolation'',
              ''EnableInterContainerTrafficEncryption''} \<Longrightarrow> lookup1 r' k = lookup1 r k"
    by (simp add: top lookup1_setitem2[OF s4] lookup1_setitem2[OF s3]
          lookup1_setitem2[OF s2] lookup1_setitem2[OF s1])
  show "lookup2 r' ''OutputDataConfig'' ''KmsKeyId'' = Some (inputs_get i ''output_encryption_key'')"
    by (simp add: l2 lookup2_setitem2[OF s4] lookup2_setitem2[OF s3] lookup2_setitem2[OF s2])
  show "lookup2 r' ''ResourceConfig'' ''VolumeKmsKeyId'' =
           Some (inputs_get i ''resource_encryption_key'')"
    by (simp add: l2 lookup2_setitem2[OF s4])
  show "b \<notin> {''InstanceType'', ''VolumeKmsKeyId''} \<Longrightarrow>
         lookup2 r' ''ResourceConfig'' b = lookup2 r ''ResourceConfig'' b"
    by (simp add: l2 lookup2_setitem2[OF s4] lookup2_setitem2[OF s3]
          lookup2_setitem2[OF s2] lookup2_setitem2[OF s1])
qed

subsection \<open>Numeric overrides\<close>

lemma override_step:
  assumes "(if c then setitem2 r a b v else Inr r) = Inr r'"
  shows "lookup2 r' a' b' = (if c \<and> a' = a \<and> b' = b then Some v else lookup2 r a' b')"
    and "k \<noteq> a \<Longrightarrow> lookup1 r' k = lookup1 r k"
  using assms by (auto split: if_splits simp: lookup2_setitem2 lookup1_setitem2)

lemma update_numeric_overrides_Inr:
  assumes "update_numeric_overrides i r = Inr r'"
  shows "k \<notin> {''ResourceConfig'', ''StoppingCondition''} \<Longrightarrow> lookup1 r' k = lookup1 r k"
    and "lookup2 r' ''ResourceConfig'' ''InstanceCount'' =
           (if truthy (inputs_get i ''instance_count'') then Some (inputs_get i ''instance_count'')
            else lookup2 r ''ResourceConfig'' ''InstanceCount'')"
    and "lookup2 r' ''ResourceConfig'' ''VolumeSizeInGB'' =
           (if truthy (inputs_get i ''volume_size'') then Some (inputs_get i ''volume_size'')
            else lookup2 r ''ResourceConfig'' ''VolumeSizeInGB'')"
    and "lookup2 r' ''StoppingCondition'' ''MaxRuntimeInSeconds'' =
           (if truthy (inputs_get i ''max_run_time'') then Some (inputs_get i ''max_run_time'')
            else lookup2 r ''StoppingCondition'' ''MaxRuntimeInSeconds'')"
    and "b \<notin> {''InstanceCount'', ''VolumeSizeInGB''} \<Longrightarrow>
         lookup2 r' ''ResourceConfig'' b = lookup2 r ''ResourceConfig'' b"
proof -
  from assms obtain r1 r2 where
    s1: "(if truthy (inputs_get i ''instance_count'')
          then setitem2 r ''ResourceConfig'' ''InstanceCount'' (inputs_get i ''instance_count'')
          else Inr r) = Inr r1"
    and s2: "(if truthy (inputs_get i ''volume_size'')
          then setitem2 r1 ''ResourceConfig'' ''VolumeSizeInGB'' (inputs_get i ''volume_size'')
          else Inr r1) = Inr r2"
    and s3: "(if truthy (inputs_get i ''max_run_time'')
          then setitem2 r2 ''StoppingCondition'' ''MaxRuntimeInSeconds'' (inputs_get i ''max_run_time'')
          else Inr r2) = Inr r'"
    unfolding update_numeric_overrides_def bind_err_Inr by blast
  note l2 = override_step(1)[OF s3] override_step(1)[OF s2] override_step(1)[OF s1]
  note l1 = override_step(2)[OF s3] override_step(2)[OF s2] override_step(2)[OF s1]
  show "k \<notin> {''ResourceConfig'', ''StoppingCondition''} \<Longrightarrow> lookup1 r' k = lookup1 r k"
    by (simp add: l1)
  show "lookup2 r' ''ResourceConfig'' ''InstanceCount'' =
           (if truthy (inputs_get i ''instance_count'') then Some (inputs_get i ''instance_count'')
            else lookup2 r ''ResourceConfig'' ''InstanceCount'')"
    by (simp add: l2)
  show "lookup2 r' ''ResourceConfig'' ''VolumeSizeInGB'' =
           (if truthy (inputs_get i ''volume_size'') then Some (inputs_get i ''volume_size'')
            else lookup2 r ''ResourceConfig'' ''VolumeSizeInGB'')"
    by (simp add: l2)
  show "lookup2 r' ''StoppingCondition'' ''MaxRuntimeInSeconds'' =
           (if truthy (inputs_get i ''max_run_time'') then Some (inputs_get i ''max_run_time'')
            else lookup2 r ''StoppingCondition'' ''MaxRuntimeInSeconds'')"
    by (simp add: l2)
  show "b \<notin> {''InstanceCount'', ''VolumeSizeInGB''} \<Longrightarrow>
         lookup2 r' ''ResourceConfig'' b = lookup2 r ''ResourceConfig'' b"
    by (simp add: l2)
qed

subsection \<open>Tags\<close>

lemma append_tags_frame:
  "append_tags kvs r = Inr r' \<Longrightarrow> k \<noteq> ''Tags'' \<Longrightarrow> lookup1 r' k = lookup1 r k"
proof (induction kvs arbitrary: r)
  case Nil
  then show ?case by simp
next
  case (Cons kv kvs)
  obtain key val where kv: "kv = (key, val)" by (cases kv)
  from Cons.prems obtain r1 where
    a: "append1 r ''Tags'' (PDict [(''Key'', PStr key), (''Value'', val)]) = Inr r1"
    and b: "append_tags kvs r1 = Inr r'"
    by (auto simp: kv bind_err_Inr)
  from Cons.IH[OF b Cons.prems(2)] lookup1_append1[OF a Cons.prems(2)]
  show ?case by simp
qed

lemma append_tags_same:
  "append_tags kvs r = Inr r' \<Longrightarrow> kvs \<noteq> [] \<Longrightarrow>
   \<exists>xs. lookup1 r ''Tags'' = Some (PList xs) \<and>
        lookup1 r' ''Tags'' = Some (PList (xs @ map tag_entry kvs))"
proof (induction kvs arbitrary: r)
  case Nil
  then show ?case by simp
next
  case (Cons kv kvs)
  obtain key val where kv: "kv = (key, val)" by (cases kv)
  from Cons.prems obtain r1 where
    a: "append1 r ''Tags'' (tag_entry kv) = Inr r1"
    and b: "append_tags kvs r1 = Inr r'"
    by (auto simp: kv bind_err_Inr tag_entry_def)
  from lookup1_append1_same[OF a] obtain xs where
    xs: "lookup1 r ''Tags'' = Some (PList xs)"
    "lookup1 r1 ''Tags'' = Some (PList (xs @ [tag_entry kv]))"
    by blast
  show ?case
  proof (cases "kvs = []")
    case True
    with b xs show ?thesis by simp
  next
    case False
    from Cons.IH[OF b False] xs show ?thesis by auto
  qed
qed

lemma update_tags_frame:
  "update_tags i r = Inr r' \<Longrightarrow> k \<noteq> ''Tags'' \<Longrightarrow> lookup1 r' k = lookup1 r k"
  by (auto simp: update_tags_def bind_err_Inr dest: append_tags_frame)

lemma update_tags_Inr:
  assumes "update_tags i r = Inr r'"
  shows "\<exists>kvs. inputs_get_default i ''tags'' (PDict []) = PDict kvs \<and>
           (if kvs = [] then lookup1 r' ''Tags'' = lookup1 r ''Tags''
            else \<exists>xs. lookup1 r ''Tags'' = Some (PList xs) \<and>
                   lookup1 r' ''Tags'' = Some (PList (xs @ map tag_entry kvs)))"
proof -
  from assms obtain kvs where k: "inputs_get_default i ''tags'' (PDict []) = PDict kvs"
    and a: "append_tags kvs r = Inr r'"
    by (auto simp: update_tags_def bind_err_Inr items_Inr)
  show ?thesis
  proof (cases "kvs = []")
    case True
    with a k show ?thesis by simp
  next
    case False
    with append_tags_same[OF a False] k show ?thesis by simp
  qed
qed

subsection \<open>The whole function\<close>

lemma create_job_request_Inr:
  assumes "snd (create_job_request env self i) = Inr req"
  obtains r1 r2 r3 r4 r5 r6 r7 r8 where
    "new_request env self i = Inr r1"
    "snd (select_algorithm env i r1) = Inr r2"
    "update_metric_definitions i r2 = Inr r3"
    "update_vpc_config i r3 = Inr r4"
    "snd (update_input_channels env i r4) = Inr r5"
    "update_output_and_resources i r5 = Inr r6"
    "update_numeric_overrides i r6 = Inr r7"
    "enable_spot_instance_support env r7 i = Inr r8"
    "update_tags i r8 = Inr req"
  using assms
  unfolding create_job_request_def request_before_channels_def request_after_channels_def
    snd_then_do_Inr snd_quiet bind_err_Inr
  by blast

lemma example_frame: "spot_support_frame example_env"
  unfolding spot_support_frame_def
proof (intro allI impI)
  fix r i r'
  assume a: "enable_spot_instance_support example_env r i = Inr r'"
  show "(\<forall>k. k \<notin> {''EnableManagedSpotTraining'', ''StoppingCondition'', ''CheckpointConfig''} \<longrightarrow>
             lookup1 r' k = lookup1 r k) \<and>
        lookup2 r' ''StoppingCondition'' ''MaxRuntimeInSeconds'' =
          lookup2 r ''StoppingCondition'' ''MaxRuntimeInSeconds''"
  proof (cases "truthy (inputs_get i ''spot_instance'')")
    case False
    with a show ?thesis by (simp add: example_env_def example_spot_support_def)
  next
    case True
    with a obtain r1 r2 where
      s1: "setitem r ''EnableManagedSpotTraining'' (inputs_get i ''spot_instance'') = Inr r1"
      and s2: "setitem2 r1 ''StoppingCondition'' ''MaxWaitTimeInSeconds''
                 (inputs_get i ''max_wait_time'') = Inr r2"
      and s3: "setitem r2 ''CheckpointConfig'' (inputs_get i ''checkpoint_config'') = Inr r'"
      by (auto simp: example_env_def example_spot_support_def bind_err_Inr split: if_splits)
    have "lookup2 r' ''StoppingCondition'' ''MaxRuntimeInSeconds'' =
          lookup2 r2 ''StoppingCondition'' ''MaxRuntimeInSeconds''"
      by (simp add: lookup2_def lookup1_setitem[OF s3])
    also have "\<dots> = lookup2 r1 ''StoppingCondition'' ''MaxRuntimeInSeconds''"
      by (simp add: lookup2_setitem2[OF s2])
    also have "\<dots> = lookup2 r ''StoppingCondition'' ''MaxRuntimeInSeconds''"
      by (simp add: lookup2_def lookup1_setitem[OF s1])
    finally show ?thesis
      by (simp add: lookup1_setitem[OF s3] lookup1_setitem2[OF s2] lookup1_setitem[OF s1])
  qed
qed

lemma spot_support_frameD:
  assumes "spot_support_frame env" "enable_spot_instance_support env r i = Inr r'"
  shows "k \<notin> {''EnableManagedSpotTraining'', ''StoppingCondition'', ''CheckpointConfig''} \<Longrightarrow>
         lookup1 r' k = lookup1 r k"
    and "lookup2 r' ''StoppingCondition'' ''MaxRuntimeInSeconds'' =
         lookup2 r ''StoppingCondition'' ''MaxRuntimeInSeconds''"
  using assms unfolding spot_support_frame_def by blast+

lemma early_top:
  assumes "get_request_template env ''train'' = Inr t"
    and "new_request env self i = Inr r1"
    and "snd (select_algorithm env i r1) = Inr r2"
    and "update_metric_definitions i r2 = Inr r3"
    and "update_vpc_config i r3 = Inr r4"
    and "snd (update_input_channels env i r4) = Inr r5"
    and "k \<notin> {''TrainingJobName'', ''RoleArn'', ''HyperParameters'', ''AlgorithmSpecification'',
              ''VpcConfig'', ''InputDataConfig''}"
  shows "lookup1 r5 k = lookup1 t k"
proof -
  from new_request_Inr[OF assms(2)] assms(1,7) have "lookup1 r1 k = lookup1 t k" by auto
  moreover have "lookup1 r2 k = lookup1 r1 k"
    using select_algorithm_frame(1)[OF assms(3)] assms(7) by simp
  moreover have "lookup1 r3 k = lookup1 r2 k"
    using update_metric_definitions_frame(1)[OF assms(4)] assms(7) by simp
  moreover have "lookup1 r4 k = lookup1 r3 k"
    using update_vpc_config_frame[OF assms(5)] assms(7) by simp
  moreover have "lookup1 r5 k = lookup1 r4 k"
    using update_input_channels_Inr(1)[OF assms(6)] assms(7) by simp
  ultimately show ?thesis by simp
qed

lemma late_top:
  assumes "spot_support_frame env"
    and "update_output_and_resources i r5 = Inr r6"
    and "update_numeric_overrides i r6 = Inr r7"
    and "enable_spot_instance_support env r7 i = Inr r8"
    and "update_tags i r8 = Inr req"
    and "k \<notin> {''OutputDataConfig'', ''ResourceConfig'', ''EnableNetworkIsolation'',
              ''EnableInterContainerTrafficEncryption'', ''StoppingCondition'',
              ''EnableManagedSpotTraining'', ''CheckpointConfig'', ''Tags''}"
  shows "lookup1 req k = lookup1 r5 k"
proof -
  have "lookup1 r6 k = lookup1 r5 k"
    using update_output_and_resources_Inr(1)[OF assms(2)] assms(6) by simp
  moreover have "lookup1 r7 k = lookup1 r6 k"
    using update_numeric_overrides_Inr(1)[OF assms(3)] assms(6) by simp
  moreover have "lookup1 r8 k = lookup1 r7 k"
    using spot_support_frameD(1)[OF assms(1,4)] assms(6) by simp
  moreover have "lookup1 req k = lookup1 r8 k"
    using update_tags_frame[OF assms(5)] assms(6) by simp
  ultimately show ?thesis by simp
qed

lemma algorithm_specification_kept:
  assumes "spot_support_frame env"
    and "update_metric_definitions i r2 = Inr r3"
    and "update_vpc_config i r3 = Inr r4"
    and "snd (update_input_channels env i r4) = Inr r5"
    and "update_output_and_resources i r5 = Inr r6"
    and "update_numeric_overrides i r6 = Inr r7"
    and "enable_spot_instance_support env r7 i = Inr r8"
    and "update_tags i r8 = Inr req"
  shows "lookup2 req ''AlgorithmSpecification'' ''MetricDefinitions'' =
           lookup2 r3 ''AlgorithmSpecification'' ''MetricDefinitions''"
    and "b \<noteq> ''MetricDefinitions'' \<Longrightarrow>
         lookup2 req ''AlgorithmSpecification'' b = lookup2 r2 ''AlgorithmSpecification'' b"
proof -
  have "lookup1 req ''AlgorithmSpecification'' = lookup1 r5 ''AlgorithmSpecification''"
    using late_top[OF assms(1,5,6,7,8)] by simp
  also have "\<dots> = lookup1 r4 ''AlgorithmSpecification''"
    using update_input_channels_Inr(1)[OF assms(4)] by simp
  also have "\<dots> = lookup1 r3 ''AlgorithmSpecification''"
    using update_vpc_config_frame[OF assms(3)] by simp
  finally have eq: "lookup2 req ''AlgorithmSpecification'' b = lookup2 r3 ''AlgorithmSpecification'' b"
    for b by (rule lookup2_cong)
  show "lookup2 req ''AlgorithmSpecification'' ''MetricDefinitions'' =
           lookup2 r3 ''AlgorithmSpecification'' ''MetricDefinitions''"
    by (rule eq)
  show "b \<noteq> ''MetricDefinitions'' \<Longrightarrow>
         lookup2 req ''AlgorithmSpecification'' b = lookup2 r2 ''AlgorithmSpecification'' b"
    using update_metric_definitions_frame(2)[OF assms(2)] eq by simp
qed



section \<open>The claims\<close>

subsection \<open>C4: the status classifier\<close>

text \<open>
  C4. \<open>_get_job_status\<close> describes the job named \<open>self._training_job_name\<close> and maps
  the description to one of three outcomes, decided by its \<open>TrainingJobStatus\<close>:
  \<open>"Completed"\<close> gives a completed status without error, \<open>"Failed"\<close> a completed
  status with error whose message is the \<open>FailureReason\<close> of the description as it is,
  and any other status a status that is not completed.
\<close>

theorem C4_status_classifier:
  assumes "c (history w) (DescribeTrainingJob (training_job_name self)) = Inr response"
    and "lookup1 response ''TrainingJobStatus'' = Some status"
  shows "(status = PStr ''Completed'' \<longrightarrow>
            fst (get_job_status c self w) =
              Inr \<lparr>is_completed = True, has_error = Some False, error_message = None\<rparr>) \<and>
         (status = PStr ''Failed'' \<longrightarrow>
            (\<forall>m. lookup1 response ''FailureReason'' = Some m \<longrightarrow>
               fst (get_job_status c self w) =
                 Inr \<lparr>is_completed = True, has_error = Some True, error_message = Some m\<rparr>)) \<and>
         (status \<noteq> PStr ''Completed'' \<and> status \<noteq> PStr ''Failed'' \<longrightarrow>
            fst (get_job_status c self w) =
              Inr \<lparr>is_completed = False, has_error = None, error_message = None\<rparr>)"
proof -
  have g: "getitem response ''TrainingJobStatus'' = Inr status"
    using assms(2) by (simp add: getitem_Inr)
  have "fst (get_job_status c self w) = classify_status response"
    using assms(1) by (simp add: get_job_status_def bind_eff_def call_def pure_eff_def)
  then show ?thesis
    by (auto simp: classify_status_def g bind_err_def getitem_Inr[symmetric])
qed

theorem C4_status_classifier_witness:
  "fst (get_job_status example_client \<lparr>training_job_name = PStr ''job-A''\<rparr> empty_world) =
     Inr \<lparr>is_completed = True, has_error = Some False, error_message = None\<rparr> \<and>
   fst (get_job_status example_client \<lparr>training_job_name = PStr ''job-F''\<rparr> empty_world) =
     Inr \<lparr>is_completed = True, has_error = Some True, error_message = Some (PStr ''OutOfMemory'')\<rparr> \<and>
   fst (get_job_status example_client \<lparr>training_job_name = PStr ''job-R''\<rparr> empty_world) =
     Inr \<lparr>is_completed = False, has_error = None, error_message = None\<rparr>"
  using
    C4_status_classifier [of example_client empty_world "\<lparr>training_job_name = PStr ''job-A''\<rparr>"
      "PDict
        [(''TrainingJobStatus'', PStr ''Completed''),
         (''ModelArtifacts'', PDict [(''S3ModelArtifacts'', PStr ''s3://bucket/out/model.tar.gz'')]),
         (''AlgorithmSpecification'', PDict [(''TrainingImage'', PStr ''registry/image:1'')])]"
      "PStr ''Completed''"]
    C4_status_classifier [of example_client empty_world "\<lparr>training_job_name = PStr ''job-F''\<rparr>"
      "PDict [(''TrainingJobStatus'', PStr ''Failed''), (''FailureReason'', PStr ''OutOfMemory'')]"
      "PStr ''Failed''"]
    C4_status_classifier [of example_client empty_world "\<lparr>training_job_name = PStr ''job-R''\<rparr>"
      "PDict [(''TrainingJobStatus'', PStr ''InProgress'')]" "PStr ''InProgress''"]
  by (simp add: example_client_def empty_world_def)

subsection \<open>C5: the job addressed on termination and in the logs\<close>

text \<open>
  C5. The claim is that the stop call and the log fetch name the job of the run. The
  source reads the global name \<open>job_name\<close> in both hooks. For a component whose
  \<open>_training_job_name\<close> is \<open>job-A\<close>: with \<open>job_name\<close> unbound, as the file leaves it, both
  hooks raise \<open>NameError\<close> and nothing is stopped or fetched; with \<open>job_name\<close> bound to
  \<open>job-B\<close> by other code, the stop call and the log stream are those of \<open>job-B\<close>.
\<close>

theorem C5_stop_and_logs_read_global_name:
  "training_job_name example_self = PStr ''job-A'' \<and>
   job_name example_env = None \<and>
   on_job_terminated example_env example_client example_self empty_world =
     (Inl (NameError ''job_name''), empty_world) \<and>
   print_logs_for_job example_env example_client example_self empty_world =
     (Inl (NameError ''job_name''), empty_world) \<and>
   on_job_terminated (example_env\<lparr>job_name := Some (PStr ''job-B'')\<rparr>) example_client
       example_self empty_world =
     (Inr (), \<lparr>outputs = [], history = [StopTrainingJob (PStr ''job-B'')]\<rparr>) \<and>
   print_logs_for_job (example_env\<lparr>job_name := Some (PStr ''job-B'')\<rparr>) example_client
       example_self empty_world =
     (Inr (), \<lparr>outputs = [],
        history = [PrintCloudwatchLogs ''/aws/sagemaker/TrainingJobs'' (PStr ''job-B'')]\<rparr>)"
  by (simp add: example_self_def example_env_def on_job_terminated_def print_logs_for_job_def
        pure_eff_def bind_eff_def call_def example_client_def empty_world_def)

subsection \<open>C7: the outputs of a completed job\<close>

text \<open>
  The two readers of the final description, on responses that carry what they read.
\<close>

lemma get_model_artifacts_from_job_Inr:
  assumes "c (history w) (DescribeTrainingJob (training_job_name self)) = Inr info"
    and "lookup2 info ''ModelArtifacts'' ''S3ModelArtifacts'' = Some url"
  shows "get_model_artifacts_from_job c self w =
           (Inr url, w\<lparr>history := history w @ [DescribeTrainingJob (training_job_name self)]\<rparr>)"
proof -
  from assms(2) obtain m where "getitem info ''ModelArtifacts'' = Inr m"
    and "getitem m ''S3ModelArtifacts'' = Inr url"
    by (auto simp: lookup2_def getitem_Inr split: option.splits)
  then show ?thesis
    using assms(1)
    by (simp add: get_model_artifacts_from_job_def bind_eff_def call_def pure_eff_def bind_err_def)
qed

lemma get_image_from_job_image:
  assumes "c (history w) (DescribeTrainingJob (training_job_name self)) = Inr info"
    and "lookup1 info ''AlgorithmSpecification'' = Some (PDict d)"
    and "map_of d ''TrainingImage'' = Some img"
  shows "get_image_from_job c self w =
           (Inr img, w\<lparr>history := history w @ [DescribeTrainingJob (training_job_name self)]\<rparr>)"
proof -
  have "getitem info ''AlgorithmSpecification'' = Inr (PDict d)"
    using assms(2) by (simp add: getitem_Inr)
  then show ?thesis
    using assms(1,3)
    by (simp add: get_image_from_job_def bind_eff_def call_def pure_eff_def)
qed

lemma get_image_from_job_algorithm:
  assumes "c (history w) (DescribeTrainingJob (training_job_name self)) = Inr info"
    and "lookup1 info ''AlgorithmSpecification'' = Some (PDict d)"
    and "map_of d ''TrainingImage'' = None"
    and "map_of d ''AlgorithmName'' = Some algorithm_name"
    and "c (history w @ [DescribeTrainingJob (training_job_name self)])
           (DescribeAlgorithm algorithm_name) = Inr r"
    and "lookup2 r ''TrainingSpecification'' ''TrainingImage'' = Some img"
  shows "get_image_from_job c self w =
           (Inr img, w\<lparr>history := history w @ [DescribeTrainingJob (training_job_name self),
                                               DescribeAlgorithm algorithm_name]\<rparr>)"
proof -
  have a: "getitem info ''AlgorithmSpecification'' = Inr (PDict d)"
    using assms(2) by (simp add: getitem_Inr)
  from assms(6) obtain t where t: "getitem r ''TrainingSpecification'' = Inr t"
    "getitem t ''TrainingImage'' = Inr img"
    by (auto simp: lookup2_def getitem_Inr split: option.splits)
  show ?thesis
    using assms(1,3,4,5) a t
    by (simp add: get_image_from_job_def bind_eff_def call_def pure_eff_def bind_err_def)
qed

text \<open>
  C7. \<open>_after_job_complete\<close>, the hook run on terminal success, stores three outputs:
  the job name of the run, the model artifact URL read from a description of that job,
  and the training image. The image is the \<open>TrainingImage\<close> of the algorithm
  specification in the description when that key is there (two describe calls in all);
  otherwise it is read from one further call, \<open>describe_algorithm\<close> on the
  \<open>AlgorithmName\<close> of the description.
\<close>

theorem C7_outputs_after_completion:
  assumes "c (history w) (DescribeTrainingJob (training_job_name self)) = Inr info1"
    and "lookup2 info1 ''ModelArtifacts'' ''S3ModelArtifacts'' = Some url"
    and "c (history w @ [DescribeTrainingJob (training_job_name self)])
           (DescribeTrainingJob (training_job_name self)) = Inr info2"
    and "lookup1 info2 ''AlgorithmSpecification'' = Some (PDict d)"
  shows "(\<forall>img. map_of d ''TrainingImage'' = Some img \<longrightarrow>
            after_job_complete c self w =
              (Inr (),
               \<lparr>outputs =
                  AList.update ''training_image'' img
                    (AList.update ''model_artifact_url'' url
                      (AList.update ''job_name'' (training_job_name self) (outputs w))),
                history =
                  history w @ [DescribeTrainingJob (training_job_name self),
                               DescribeTrainingJob (training_job_name self)]\<rparr>)) \<and>
         (\<forall>algorithm_name r img.
            map_of d ''TrainingImage'' = None \<and>
            map_of d ''AlgorithmName'' = Some algorithm_name \<and>
            c (history w @ [DescribeTrainingJob (training_job_name self),
                            DescribeTrainingJob (training_job_name self)])
              (DescribeAlgorithm algorithm_name) = Inr r \<and>
            lookup2 r ''TrainingSpecification'' ''TrainingImage'' = Some img \<longrightarrow>
            after_job_complete c self w =
              (Inr (),
               \<lparr>outputs =
                  AList.update ''training_image'' img
                    (AList.update ''model_artifact_url'' url
                      (AList.update ''job_name'' (training_job_name self) (outputs w))),
                history =
                  history w @ [DescribeTrainingJob (training_job_name self),
                               DescribeTrainingJob (training_job_name self),
                               DescribeAlgorithm algorithm_name]\<rparr>))"
proof -
  define n where "n = training_job_name self"
  define w1 where "w1 = w\<lparr>outputs := AList.update ''job_name'' n (outputs w)\<rparr>"
  define w2 where "w2 = w1\<lparr>history := history w1 @ [DescribeTrainingJob n]\<rparr>"
  define w3 where "w3 = w2\<lparr>outputs := AList.update ''model_artifact_url'' url (outputs w2)\<rparr>"
  have h1: "c (history w1) (DescribeTrainingJob (training_job_name self)) = Inr info1"
    using assms(1) by (simp add: w1_def)
  have art: "get_model_artifacts_from_job c self w1 = (Inr url, w2)"
    using get_model_artifacts_from_job_Inr[of c w1 self info1 url] h1 assms(2)
    by (simp add: w2_def n_def)
  have h3: "c (history w3) (DescribeTrainingJob (training_job_name self)) = Inr info2"
    using assms(3) by (simp add: w3_def w2_def w1_def n_def)
  have start: "after_job_complete c self w =
      bind_eff (get_image_from_job c self) (\<lambda>img. set_output ''training_image'' img) w3"
    by (simp add: after_job_complete_def bind_eff_def set_output_def art
          w1_def[symmetric] n_def[symmetric] w3_def[symmetric])
  show ?thesis
  proof (intro conjI allI impI)
    fix img
    assume "map_of d ''TrainingImage'' = Some img"
    with get_image_from_job_image[of c w3 self info2 d img] h3 assms(4)
    show "after_job_complete c self w =
              (Inr (),
               \<lparr>outputs =
                  AList.update ''training_image'' img
                    (AList.update ''model_artifact_url'' url
                      (AList.update ''job_name'' (training_job_name self) (outputs w))),
                history =
                  history w @ [DescribeTrainingJob (training_job_name self),
                               DescribeTrainingJob (training_job_name self)]\<rparr>)"
      by (simp add: start bind_eff_def set_output_def w3_def w2_def w1_def n_def)
  next
    fix algorithm_name r img
    assume a: "map_of d ''TrainingImage'' = None \<and>
            map_of d ''AlgorithmName'' = Some algorithm_name \<and>
            c (history w @ [DescribeTrainingJob (training_job_name self),
                            DescribeTrainingJob (training_job_name self)])
              (DescribeAlgorithm algorithm_name) = Inr r \<and>
            lookup2 r ''TrainingSpecification'' ''TrainingImage'' = Some img"
    then have "c (history w3 @ [DescribeTrainingJob (training_job_name self)])
              (DescribeAlgorithm algorithm_name) = Inr r"
      by (simp add: w3_def w2_def w1_def n_def)
    with get_image_from_job_algorithm[of c w3 self info2 d algorithm_name r img] h3 assms(4) a
    show "after_job_complete c self w =
              (Inr (),
               \<lparr>outputs =
                  AList.update ''training_image'' img
                    (AList.update ''model_artifact_url'' url
                      (AList.update ''job_name'' (training_job_name self) (outputs w))),
                history =
                  history w @ [DescribeTrainingJob (training_job_name self),
                               DescribeTrainingJob (training_job_name self),
                               DescribeAlgorithm algorithm_name]\<rparr>)"
      by (simp add: start bind_eff_def set_output_def w3_def w2_def w1_def n_def)
  qed
qed

theorem C7_outputs_after_completion_witness:
  "after_job_complete example_client \<lparr>training_job_name = PStr ''job-A''\<rparr> empty_world =
     (Inr (),
      \<lparr>outputs =
         [(''job_name'', PStr ''job-A''),
          (''model_artifact_url'', PStr ''s3://bucket/out/model.tar.gz''),
          (''training_image'', PStr ''registry/image:1'')],
       history = [DescribeTrainingJob (PStr ''job-A''), DescribeTrainingJob (PStr ''job-A'')]\<rparr>) \<and>
   after_job_complete example_client \<lparr>training_job_name = PStr ''job-B''\<rparr> empty_world =
     (Inr (),
      \<lparr>outputs =
         [(''job_name'', PStr ''job-B''),
          (''model_artifact_url'', PStr ''s3://bucket/b/model.tar.gz''),
          (''training_image'', PStr ''registry/my-algo:2'')],
       history = [DescribeTrainingJob (PStr ''job-B''), DescribeTrainingJob (PStr ''job-B''),
                  DescribeAlgorithm (PStr ''my-algo'')]\<rparr>)"
  using
    C7_outputs_after_completion [of example_client empty_world "\<lparr>training_job_name = PStr ''job-A''\<rparr>"
      "PDict
        [(''TrainingJobStatus'', PStr ''Completed''),
         (''ModelArtifacts'', PDict [(''S3ModelArtifacts'', PStr ''s3://bucket/out/model.tar.gz'')]),
         (''AlgorithmSpecification'', PDict [(''TrainingImage'', PStr ''registry/image:1'')])]"
      "PStr ''s3://bucket/out/model.tar.gz''"
      "PDict
        [(''TrainingJobStatus'', PStr ''Completed''),
         (''ModelArtifacts'', PDict [(''S3ModelArtifacts'', PStr ''s3://bucket/out/model.tar.gz'')]),
         (''AlgorithmSpecification'', PDict [(''TrainingImage'', PStr ''registry/image:1'')])]"
      "[(''TrainingImage'', PStr ''registry/image:1'')]"]
    C7_outputs_after_completion [of example_client empty_world "\<lparr>training_job_name = PStr ''job-B''\<rparr>"
      "PDict
        [(''TrainingJobStatus'', PStr ''Completed''),
         (''ModelArtifacts'', PDict [(''S3ModelArtifacts'', PStr ''s3://bucket/b/model.tar.gz'')]),
         (''AlgorithmSpecification'', PDict [(''AlgorithmName'', PStr ''my-algo'')])]"
      "PStr ''s3://bucket/b/model.tar.gz''"
      "PDict
        [(''TrainingJobStatus'', PStr ''Completed''),
         (''ModelArtifacts'', PDict [(''S3ModelArtifacts'', PStr ''s3://bucket/b/model.tar.gz'')]),
         (''AlgorithmSpecification'', PDict [(''AlgorithmName'', PStr ''my-algo'')])]"
      "[(''AlgorithmName'', PStr ''my-algo'')]"]
  by (simp add: example_client_def empty_world_def lookup2_def)

text \<open>The builder on \<open>example_inputs\<close>, with the global names as the file binds them.\<close>

lemma example_build:
  "create_job_request example_env example_self example_inputs = ([], Inr example_request)"
  by code_simp

subsection \<open>C8: the numeric overrides\<close>

text \<open>
  C8. With a spot-instance helper that keeps to its frame, in every request that the
  construction returns, each of \<open>ResourceConfig.InstanceCount\<close>,
  \<open>ResourceConfig.VolumeSizeInGB\<close> and \<open>StoppingCondition.MaxRuntimeInSeconds\<close> is the
  caller's input when that input is truthy (present and not zero), and otherwise is what
  the template has for it.
\<close>

theorem C8_numeric_overrides:
  assumes "spot_support_frame env"
    and "get_request_template env ''train'' = Inr t"
    and "snd (create_job_request env self i) = Inr req"
  shows "lookup2 req ''ResourceConfig'' ''InstanceCount'' =
           (if truthy (inputs_get i ''instance_count'') then Some (inputs_get i ''instance_count'')
            else lookup2 t ''ResourceConfig'' ''InstanceCount'') \<and>
         lookup2 req ''ResourceConfig'' ''VolumeSizeInGB'' =
           (if truthy (inputs_get i ''volume_size'') then Some (inputs_get i ''volume_size'')
            else lookup2 t ''ResourceConfig'' ''VolumeSizeInGB'') \<and>
         lookup2 req ''StoppingCondition'' ''MaxRuntimeInSeconds'' =
           (if truthy (inputs_get i ''max_run_time'') then Some (inputs_get i ''max_run_time'')
            else lookup2 t ''StoppingCondition'' ''MaxRuntimeInSeconds'')"
proof -
  from assms(3) obtain r1 r2 r3 r4 r5 r6 r7 r8 where c:
    "new_request env self i = Inr r1"
    "snd (select_algorithm env i r1) = Inr r2"
    "update_metric_definitions i r2 = Inr r3"
    "update_vpc_config i r3 = Inr r4"
    "snd (update_input_channels env i r4) = Inr r5"
    "update_output_and_resources i r5 = Inr r6"
    "update_numeric_overrides i r6 = Inr r7"
    "enable_spot_instance_support env r7 i = Inr r8"
    "update_tags i r8 = Inr req"
    by (rule create_job_request_Inr)
  have rc5: "lookup2 r5 ''ResourceConfig'' b = lookup2 t ''ResourceConfig'' b" for b
    by (rule lookup2_cong) (simp add: early_top[OF assms(2) c(1-5)])
  have sc5: "lookup2 r5 ''StoppingCondition'' b = lookup2 t ''StoppingCondition'' b" for b
    by (rule lookup2_cong) (simp add: early_top[OF assms(2) c(1-5)])
  have rc6: "lookup2 r6 ''ResourceConfig'' b = lookup2 t ''ResourceConfig'' b"
    if "b \<notin> {''InstanceType'', ''VolumeKmsKeyId''}" for b
    using update_output_and_resources_Inr(4)[OF c(6) that] rc5 by simp
  have sc6: "lookup2 r6 ''StoppingCondition'' b = lookup2 t ''StoppingCondition'' b" for b
  proof -
    have "lookup2 r6 ''StoppingCondition'' b = lookup2 r5 ''StoppingCondition'' b"
      by (rule lookup2_cong) (simp add: update_output_and_resources_Inr(1)[OF c(6)])
    then show ?thesis by (simp add: sc5)
  qed
  have rc_req: "lookup2 req ''ResourceConfig'' b = lookup2 r7 ''ResourceConfig'' b" for b
  proof -
    have "lookup1 req ''ResourceConfig'' = lookup1 r8 ''ResourceConfig''"
      using update_tags_frame[OF c(9)] by simp
    also have "\<dots> = lookup1 r7 ''ResourceConfig''"
      using spot_support_frameD(1)[OF assms(1) c(8)] by simp
    finally show ?thesis by (rule lookup2_cong)
  qed
  have sc_req: "lookup2 req ''StoppingCondition'' ''MaxRuntimeInSeconds'' =
                lookup2 r7 ''StoppingCondition'' ''MaxRuntimeInSeconds''"
  proof -
    have "lookup1 req ''StoppingCondition'' = lookup1 r8 ''StoppingCondition''"
      using update_tags_frame[OF c(9)] by simp
    then have "lookup2 req ''StoppingCondition'' ''MaxRuntimeInSeconds'' =
               lookup2 r8 ''StoppingCondition'' ''MaxRuntimeInSeconds''"
      by (rule lookup2_cong)
    then show ?thesis using spot_support_frameD(2)[OF assms(1) c(8)] by simp
  qed
  show ?thesis
    by (simp add: rc_req sc_req update_numeric_overrides_Inr(2,3,4)[OF c(7)] rc6 sc6)
qed

theorem C8_numeric_overrides_witness:
  "spot_support_frame example_env \<and>
   get_request_template example_env ''train'' = Inr example_template \<and>
   snd (create_job_request example_env example_self example_inputs) = Inr example_request \<and>
   inputs_get example_inputs ''instance_count'' = PInt 2 \<and>
   lookup2 example_request ''ResourceConfig'' ''InstanceCount'' = Some (PInt 2) \<and>
   inputs_get example_inputs ''volume_size'' = PInt 0 \<and>
   lookup2 example_template ''ResourceConfig'' ''VolumeSizeInGB'' = Some (PInt 1) \<and>
   lookup2 example_request ''ResourceConfig'' ''VolumeSizeInGB'' = Some (PInt 1) \<and>
   inputs_get example_inputs ''max_run_time'' = PNone \<and>
   lookup2 example_template ''StoppingCondition'' ''MaxRuntimeInSeconds'' = Some (PInt 86400) \<and>
   lookup2 example_request ''StoppingCondition'' ''MaxRuntimeInSeconds'' = Some (PInt 86400)"
proof -
  have t: "get_request_template example_env ''train'' = Inr example_template"
    by (simp add: example_env_def)
  have ok: "snd (create_job_request example_env example_self example_inputs) = Inr example_request"
    by (simp add: example_build)
  have i: "inputs_get example_inputs ''instance_count'' = PInt 2"
    "inputs_get example_inputs ''volume_size'' = PInt 0"
    "inputs_get example_inputs ''max_run_time'' = PNone"
    by (simp_all add: inputs_get_def example_inputs_def)
  have d: "lookup2 example_template ''ResourceConfig'' ''VolumeSizeInGB'' = Some (PInt 1)"
    "lookup2 example_template ''StoppingCondition'' ''MaxRuntimeInSeconds'' = Some (PInt 86400)"
    by (simp_all add: lookup2_def example_template_def)
  from C8_numeric_overrides [OF example_frame t ok] show ?thesis
    using example_frame t ok i d by simp
qed

subsection \<open>C9: the job name\<close>






subsection \<open>C1: image or algorithm name\<close>

text \<open>
  C1. The claim is that inputs with both an image and an algorithm name give a request
  with the image and a warning, and that inputs with neither fail with a validation
  error. In both cases the source calls \<open>logging.error\<close> first, at lines 89 and 86, and
  the file does not import \<open>logging\<close>: with the global names as the file binds them, the
  construction raises \<open>NameError\<close> there, logs nothing, and returns no request.
\<close>

theorem C1_image_and_algorithm_name_error:
  "logging example_env = None \<and>
   truthy (inputs_get inputs_image_and_algorithm ''image'') \<and>
   truthy (inputs_get inputs_image_and_algorithm ''algorithm_name'') \<and>
   create_job_request example_env example_self inputs_image_and_algorithm =
     ([], Inl (NameError ''logging'')) \<and>
   \<not> truthy (inputs_get inputs_without_algorithm ''image'') \<and>
   \<not> truthy (inputs_get inputs_without_algorithm ''algorithm_name'') \<and>
   create_job_request example_env example_self inputs_without_algorithm =
     ([], Inl (NameError ''logging''))"
proof -
  have "logging example_env = None"
    by (simp add: example_env_def)
  moreover have "truthy (inputs_get inputs_image_and_algorithm ''image'')"
    "truthy (inputs_get inputs_image_and_algorithm ''algorithm_name'')"
    by (simp_all add: inputs_get_def inputs_image_and_algorithm_def)
  moreover have "\<not> truthy (inputs_get inputs_without_algorithm ''image'')"
    "\<not> truthy (inputs_get inputs_without_algorithm ''algorithm_name'')"
    by (simp_all add: inputs_get_def inputs_without_algorithm_def)
  moreover have "create_job_request example_env example_self inputs_image_and_algorithm =
     ([], Inl (NameError ''logging''))"
    by code_simp
  moreover have "create_job_request example_env example_self inputs_without_algorithm =
     ([], Inl (NameError ''logging''))"
    by code_simp
  ultimately show ?thesis by simp
qed

subsection \<open>C2: the input channels\<close>

text \<open>
  C2. The claim is that an empty list of channels fails with a validation error. The
  source calls \<open>logging.error\<close> at line 146, before the \<open>raise\<close> of line 147, and the
  file does not import \<open>logging\<close>: with the global names as the file binds them, inputs
  with an image and an empty list of channels raise \<open>NameError\<close>, and the exception
  \<open>Could not create job request\<close> is never raised.
\<close>

theorem C2_empty_channels_name_error:
  "logging example_env = None \<and>
   inputs_get inputs_empty_channels ''channels'' = PList [] \<and>
   create_job_request example_env example_self inputs_empty_channels =
     ([], Inl (NameError ''logging''))"
proof -
  have "logging example_env = None"
    by (simp add: example_env_def)
  moreover have "inputs_get inputs_empty_channels ''channels'' = PList []"
    by (simp add: inputs_get_def inputs_empty_channels_def)
  moreover have "create_job_request example_env example_self inputs_empty_channels =
     ([], Inl (NameError ''logging''))"
    by code_simp
  ultimately show ?thesis by simp
qed

subsection \<open>C3: the lookup of an algorithm name\<close>

text \<open>
  C3. The claim is that an algorithm name given without an image is looked up in the
  table of built-in algorithms. The source reads the global name \<open>built_in_algos\<close> at
  line 101, and the file neither defines nor imports it (nor \<open>get_image_uri\<close>, read at
  lines 102 and 111): with the global names as the file binds them, every such input
  raises \<open>NameError\<close> once the name is lower-cased and stripped, whether the name is
  that of a built-in algorithm or not.
\<close>

theorem C3_algorithm_name_error:
  "built_in_algos example_env = None \<and>
   \<not> truthy (inputs_get (inputs_with_algorithm ''xgboost'') ''image'') \<and>
   inputs_get (inputs_with_algorithm ''xgboost'') ''algorithm_name'' = PStr ''xgboost'' \<and>
   create_job_request example_env example_self (inputs_with_algorithm ''xgboost'') =
     ([], Inl (NameError ''built_in_algos'')) \<and>
   create_job_request example_env example_self (inputs_with_algorithm ''My-Algo'') =
     ([], Inl (NameError ''built_in_algos''))"
proof -
  have "built_in_algos example_env = None"
    by (simp add: example_env_def)
  moreover have "\<not> truthy (inputs_get (inputs_with_algorithm ''xgboost'') ''image'')"
    "inputs_get (inputs_with_algorithm ''xgboost'') ''algorithm_name'' = PStr ''xgboost''"
    by (simp_all add: inputs_get_def inputs_with_algorithm_def)
  moreover have "create_job_request example_env example_self (inputs_with_algorithm ''xgboost'') =
     ([], Inl (NameError ''built_in_algos''))"
    by code_simp
  moreover have "create_job_request example_env example_self (inputs_with_algorithm ''My-Algo'') =
     ([], Inl (NameError ''built_in_algos''))"
    by code_simp
  ultimately show ?thesis by simp
qed

subsection \<open>C10: the channels key absent\<close>









subsection \<open>C6: the optional blocks\<close>

text \<open>
  C6, as stated, says that the encryption keys and the tags are left out of the request
  when the inputs do not give them. On \<open>example_inputs\<close>, which give neither key and no
  tags, the request has \<open>OutputDataConfig.KmsKeyId\<close> and
  \<open>ResourceConfig.VolumeKmsKeyId\<close>, both \<open>None\<close>, and it has \<open>Tags\<close>, the empty list of
  the template.
\<close>

theorem C6_optional_blocks_counterexample:
  "inputs_get example_inputs ''output_encryption_key'' = PNone \<and>
   inputs_get example_inputs ''resource_encryption_key'' = PNone \<and>
   inputs_get_default example_inputs ''tags'' (PDict []) = PDict [] \<and>
   snd (create_job_request example_env example_self example_inputs) = Inr example_request \<and>
   lookup2 example_request ''OutputDataConfig'' ''KmsKeyId'' = Some PNone \<and>
   lookup2 example_request ''ResourceConfig'' ''VolumeKmsKeyId'' = Some PNone \<and>
   lookup1 example_request ''Tags'' = Some (PList [])"
proof -
  have "inputs_get example_inputs ''output_encryption_key'' = PNone"
    "inputs_get example_inputs ''resource_encryption_key'' = PNone"
    "inputs_get_default example_inputs ''tags'' (PDict []) = PDict []"
    by (simp_all add: inputs_get_def inputs_get_default_def example_inputs_def)
  moreover have "lookup2 example_request ''OutputDataConfig'' ''KmsKeyId'' = Some PNone"
    "lookup2 example_request ''ResourceConfig'' ''VolumeKmsKeyId'' = Some PNone"
    "lookup1 example_request ''Tags'' = Some (PList [])"
    by (simp_all add: example_request_def lookup2_def)
  ultimately show ?thesis by (simp add: example_build)
qed

text \<open>
  C6, amended. With a spot-instance helper that keeps to its frame, in every request
  that the construction returns from the template \<open>t\<close>:
  \<^item> \<open>VpcConfig\<close> has the two lists, split at the commas, when both VPC inputs are
    truthy, and is absent otherwise;
  \<^item> \<open>MetricDefinitions\<close> is the list of the template followed by one entry for each
    item when the input is truthy, and is absent otherwise;
  \<^item> \<open>KmsKeyId\<close> and \<open>VolumeKmsKeyId\<close> are always written, with the value of the input,
    which is \<open>None\<close> when the input is not given;
  \<^item> \<open>Tags\<close> is what the template has for it when there are no tags, and the list of the
    template followed by one entry for each tag otherwise.
\<close>

theorem C6_optional_blocks:
  assumes "spot_support_frame env"
    and "get_request_template env ''train'' = Inr t"
    and "snd (create_job_request env self i) = Inr req"
  shows "(if truthy (inputs_get i ''vpc_security_group_ids'') \<and> truthy (inputs_get i ''vpc_subnets'')
          then \<exists>g s. inputs_get i ''vpc_security_group_ids'' = PStr g \<and>
                 inputs_get i ''vpc_subnets'' = PStr s \<and>
                 lookup2 req ''VpcConfig'' ''SecurityGroupIds'' =
                   Some (PList (map PStr (str_split (CHR '','') g))) \<and>
                 lookup2 req ''VpcConfig'' ''Subnets'' =
                   Some (PList (map PStr (str_split (CHR '','') s)))
          else lookup1 req ''VpcConfig'' = None) \<and>
         (if truthy (inputs_get i ''metric_definitions'')
          then \<exists>kvs xs. inputs_get i ''metric_definitions'' = PDict kvs \<and>
                 lookup2 t ''AlgorithmSpecification'' ''MetricDefinitions'' = Some (PList xs) \<and>
                 lookup2 req ''AlgorithmSpecification'' ''MetricDefinitions'' =
                   Some (PList (xs @ map metric_entry kvs))
          else lookup2 req ''AlgorithmSpecification'' ''MetricDefinitions'' = None) \<and>
         lookup2 req ''OutputDataConfig'' ''KmsKeyId'' = Some (inputs_get i ''output_encryption_key'') \<and>
         lookup2 req ''ResourceConfig'' ''VolumeKmsKeyId'' =
           Some (inputs_get i ''resource_encryption_key'') \<and>
         (\<exists>kvs. inputs_get_default i ''tags'' (PDict []) = PDict kvs \<and>
            (if kvs = [] then lookup1 req ''Tags'' = lookup1 t ''Tags''
             else \<exists>xs. lookup1 t ''Tags'' = Some (PList xs) \<and>
                    lookup1 req ''Tags'' = Some (PList (xs @ map tag_entry kvs))))"
proof -
  from assms(3) obtain r1 r2 r3 r4 r5 r6 r7 r8 where c:
    "new_request env self i = Inr r1"
    "snd (select_algorithm env i r1) = Inr r2"
    "update_metric_definitions i r2 = Inr r3"
    "update_vpc_config i r3 = Inr r4"
    "snd (update_input_channels env i r4) = Inr r5"
    "update_output_and_resources i r5 = Inr r6"
    "update_numeric_overrides i r6 = Inr r7"
    "enable_spot_instance_support env r7 i = Inr r8"
    "update_tags i r8 = Inr req"
    by (rule create_job_request_Inr)
  \<comment> \<open>VPC\<close>
  have vpc1: "lookup1 req ''VpcConfig'' = lookup1 r4 ''VpcConfig''"
    using late_top[OF assms(1) c(6-9)] update_input_channels_Inr(1)[OF c(5)] by simp
  then have vpc2: "lookup2 req ''VpcConfig'' b = lookup2 r4 ''VpcConfig'' b" for b
    by (rule lookup2_cong)
  have vpc: "if truthy (inputs_get i ''vpc_security_group_ids'') \<and> truthy (inputs_get i ''vpc_subnets'')
          then \<exists>g s. inputs_get i ''vpc_security_group_ids'' = PStr g \<and>
                 inputs_get i ''vpc_subnets'' = PStr s \<and>
                 lookup2 req ''VpcConfig'' ''SecurityGroupIds'' =
                   Some (PList (map PStr (str_split (CHR '','') g))) \<and>
                 lookup2 req ''VpcConfig'' ''Subnets'' =
                   Some (PList (map PStr (str_split (CHR '','') s)))
          else lookup1 req ''VpcConfig'' = None"
    using update_vpc_config_present[OF c(4)] update_vpc_config_absent[OF c(4)]
    by (auto simp: vpc1 vpc2)
  \<comment> \<open>metric definitions\<close>
  have md_req: "lookup2 req ''AlgorithmSpecification'' ''MetricDefinitions'' =
                lookup2 r3 ''AlgorithmSpecification'' ''MetricDefinitions''"
    using algorithm_specification_kept(1)[OF assms(1) c(3-9)] .
  have "lookup2 r2 ''AlgorithmSpecification'' ''MetricDefinitions'' =
        lookup2 r1 ''AlgorithmSpecification'' ''MetricDefinitions''"
    using select_algorithm_frame(2)[OF c(2)] by simp
  also have "\<dots> = lookup2 t ''AlgorithmSpecification'' ''MetricDefinitions''"
    using new_request_Inr[OF c(1)] assms(2) by auto
  finally have md_t: "lookup2 r2 ''AlgorithmSpecification'' ''MetricDefinitions'' =
                      lookup2 t ''AlgorithmSpecification'' ''MetricDefinitions''" .
  have md: "if truthy (inputs_get i ''metric_definitions'')
          then \<exists>kvs xs. inputs_get i ''metric_definitions'' = PDict kvs \<and>
                 lookup2 t ''AlgorithmSpecification'' ''MetricDefinitions'' = Some (PList xs) \<and>
                 lookup2 req ''AlgorithmSpecification'' ''MetricDefinitions'' =
                   Some (PList (xs @ map metric_entry kvs))
          else lookup2 req ''AlgorithmSpecification'' ''MetricDefinitions'' = None"
    using update_metric_definitions_present[OF c(3)] update_metric_definitions_absent[OF c(3)]
    by (auto simp: md_req md_t)
  \<comment> \<open>encryption keys\<close>
  have "lookup1 req ''OutputDataConfig'' = lookup1 r8 ''OutputDataConfig''"
    using update_tags_frame[OF c(9)] by simp
  also have "\<dots> = lookup1 r7 ''OutputDataConfig''"
    using spot_support_frameD(1)[OF assms(1) c(8)] by simp
  also have "\<dots> = lookup1 r6 ''OutputDataConfig''"
    using update_numeric_overrides_Inr(1)[OF c(7)] by simp
  finally have "lookup2 req ''OutputDataConfig'' ''KmsKeyId'' = lookup2 r6 ''OutputDataConfig'' ''KmsKeyId''"
    by (rule lookup2_cong)
  then have k1: "lookup2 req ''OutputDataConfig'' ''KmsKeyId'' =
                 Some (inputs_get i ''output_encryption_key'')"
    using update_output_and_resources_Inr(2)[OF c(6)] by simp
  have "lookup1 req ''ResourceConfig'' = lookup1 r8 ''ResourceConfig''"
    using update_tags_frame[OF c(9)] by simp
  also have "\<dots> = lookup1 r7 ''ResourceConfig''"
    using spot_support_frameD(1)[OF assms(1) c(8)] by simp
  finally have "lookup2 req ''ResourceConfig'' ''VolumeKmsKeyId'' =
                lookup2 r7 ''ResourceConfig'' ''VolumeKmsKeyId''"
    by (rule lookup2_cong)
  then have k2: "lookup2 req ''ResourceConfig'' ''VolumeKmsKeyId'' =
                 Some (inputs_get i ''resource_encryption_key'')"
    using update_numeric_overrides_Inr(5)[OF c(7), of "''VolumeKmsKeyId''"]
      update_output_and_resources_Inr(3)[OF c(6)] by simp
  \<comment> \<open>tags\<close>
  have "lookup1 r8 ''Tags'' = lookup1 r7 ''Tags''"
    using spot_support_frameD(1)[OF assms(1) c(8)] by simp
  also have "\<dots> = lookup1 r6 ''Tags''"
    using update_numeric_overrides_Inr(1)[OF c(7)] by simp
  also have "\<dots> = lookup1 r5 ''Tags''"
    using update_output_and_resources_Inr(1)[OF c(6)] by simp
  also have "\<dots> = lookup1 t ''Tags''"
    using early_top[OF assms(2) c(1-5)] by simp
  finally have tags_t: "lookup1 r8 ''Tags'' = lookup1 t ''Tags''" .
  have tags: "\<exists>kvs. inputs_get_default i ''tags'' (PDict []) = PDict kvs \<and>
            (if kvs = [] then lookup1 req ''Tags'' = lookup1 t ''Tags''
             else \<exists>xs. lookup1 t ''Tags'' = Some (PList xs) \<and>
                    lookup1 req ''Tags'' = Some (PList (xs @ map tag_entry kvs)))"
    using update_tags_Inr[OF c(9)] unfolding tags_t .
  show ?thesis using vpc md k1 k2 tags by blast
qed

theorem C6_optional_blocks_witness:
  "spot_support_frame example_env \<and>
   get_request_template example_env ''train'' = Inr example_template \<and>
   (\<exists>req. snd (create_job_request example_env example_self inputs_with_options) = Inr req \<and>
      lookup2 req ''VpcConfig'' ''SecurityGroupIds'' = Some (PList [PStr ''sg-1'', PStr ''sg-2'']) \<and>
      lookup2 req ''VpcConfig'' ''Subnets'' = Some (PList [PStr ''subnet-1'']) \<and>
      lookup2 req ''AlgorithmSpecification'' ''MetricDefinitions'' =
        Some (PList [PDict [(''Name'', PStr ''loss''), (''Regex'', PStr ''loss: (.*)'')]]) \<and>
      lookup2 req ''OutputDataConfig'' ''KmsKeyId'' = Some (PStr ''key-1'') \<and>
      lookup2 req ''ResourceConfig'' ''VolumeKmsKeyId'' = Some (PStr ''key-2'') \<and>
      lookup1 req ''Tags'' = Some (PList [PDict [(''Key'', PStr ''team''), (''Value'', PStr ''ml'')]])) \<and>
   snd (create_job_request example_env example_self example_inputs) = Inr example_request \<and>
   lookup1 example_request ''VpcConfig'' = None \<and>
   lookup2 example_request ''AlgorithmSpecification'' ''MetricDefinitions'' = None \<and>
   lookup2 example_request ''OutputDataConfig'' ''KmsKeyId'' = Some PNone \<and>
   lookup2 example_request ''ResourceConfig'' ''VolumeKmsKeyId'' = Some PNone \<and>
   lookup1 example_request ''Tags'' = Some (PList [])"
proof -
  have t: "get_request_template example_env ''train'' = Inr example_template"
    by (simp add: example_env_def)
  have tl: "lookup2 example_template ''AlgorithmSpecification'' ''MetricDefinitions'' = Some (PList [])"
    "lookup1 example_template ''Tags'' = Some (PList [])"
    by (simp_all add: example_template_def lookup2_def)
  have "case snd (create_job_request example_env example_self inputs_with_options) of
          Inl e \<Rightarrow> False | Inr r \<Rightarrow> True"
    by code_simp
  then obtain req1 where
    r1: "snd (create_job_request example_env example_self inputs_with_options) = Inr req1"
    by (auto split: sum.splits)
  have i1: "inputs_get inputs_with_options ''vpc_security_group_ids'' = PStr ''sg-1,sg-2''"
    "inputs_get inputs_with_options ''vpc_subnets'' = PStr ''subnet-1''"
    "inputs_get inputs_with_options ''metric_definitions'' = PDict [(''loss'', PStr ''loss: (.*)'')]"
    "inputs_get inputs_with_options ''output_encryption_key'' = PStr ''key-1''"
    "inputs_get inputs_with_options ''resource_encryption_key'' = PStr ''key-2''"
    "inputs_get_default inputs_with_options ''tags'' (PDict []) = PDict [(''team'', PStr ''ml'')]"
    by (simp_all add: inputs_get_def inputs_get_default_def inputs_with_options_def)
  from C6_optional_blocks [OF example_frame t r1] have 1:
    "lookup2 req1 ''VpcConfig'' ''SecurityGroupIds'' = Some (PList [PStr ''sg-1'', PStr ''sg-2'']) \<and>
      lookup2 req1 ''VpcConfig'' ''Subnets'' = Some (PList [PStr ''subnet-1'']) \<and>
      lookup2 req1 ''AlgorithmSpecification'' ''MetricDefinitions'' =
        Some (PList [PDict [(''Name'', PStr ''loss''), (''Regex'', PStr ''loss: (.*)'')]]) \<and>
      lookup2 req1 ''OutputDataConfig'' ''KmsKeyId'' = Some (PStr ''key-1'') \<and>
      lookup2 req1 ''ResourceConfig'' ''VolumeKmsKeyId'' = Some (PStr ''key-2'') \<and>
      lookup1 req1 ''Tags'' = Some (PList [PDict [(''Key'', PStr ''team''), (''Value'', PStr ''ml'')]])"
    by (simp add: i1 tl metric_entry_def tag_entry_def)
  have r2: "snd (create_job_request example_env example_self example_inputs) = Inr example_request"
    by (simp add: example_build)
  have i2: "inputs_get example_inputs ''vpc_security_group_ids'' = PNone"
    "inputs_get example_inputs ''vpc_subnets'' = PNone"
    "inputs_get example_inputs ''metric_definitions'' = PNone"
    "inputs_get example_inputs ''output_encryption_key'' = PNone"
    "inputs_get example_inputs ''resource_encryption_key'' = PNone"
    "inputs_get_default example_inputs ''tags'' (PDict []) = PDict []"
    by (simp_all add: inputs_get_def inputs_get_default_def example_inputs_def)
  from C6_optional_blocks [OF example_frame t r2] have 2:
    "lookup1 example_request ''VpcConfig'' = None \<and>
      lookup2 example_request ''AlgorithmSpecification'' ''MetricDefinitions'' = None \<and>
      lookup2 example_request ''OutputDataConfig'' ''KmsKeyId'' = Some PNone \<and>
      lookup2 example_request ''ResourceConfig'' ''VolumeKmsKeyId'' = Some PNone \<and>
      lookup1 example_request ''Tags'' = Some (PList [])"
    by (simp add: i2 tl)
  show ?thesis using example_frame t r1 1 r2 2 by blast
qed

end
